theory Spec2Isabelle
  imports Main
begin

section \<open>Go values and errors\<close>

text \<open>
  A Go call either returns or panics (an index out of range, a nil dereference).
  A pointer is an \<open>option\<close>: \<open>None\<close> is \<open>nil\<close>. A function that returns
  \<open>(*T, error)\<close> returns a pair of options, so that "nil and no error" is a value of
  the model that the code has to exclude by itself.
\<close>

datatype 'a go = Panic | Return 'a

text \<open>\<open>aws.StringValue\<close> of the AWS SDK: the string behind a pointer, empty for nil.\<close>

definition StringValue :: "string option \<Rightarrow> string" where
  "StringValue p = (case p of None \<Rightarrow> [] | Some s \<Rightarrow> s)"

text \<open>
  \<open>strings.Split(s, sep)\<close> of the Go library for a separator of one character: the
  pieces between the separators, always at least one piece.
\<close>

fun strings_Split :: "string \<Rightarrow> char \<Rightarrow> string list" where
  "strings_Split [] c = [[]]"
| "strings_Split (x # xs) c =
     (if x = c then [] # strings_Split xs c
      else (case strings_Split xs c of
              [] \<Rightarrow> [[x]]
            | p # ps \<Rightarrow> (x # p) # ps))"

text \<open>
  \<open>strings.SplitN(s, sep, n)\<close>: at most \<open>n\<close> pieces, the last one the unsplit
  rest; no piece at all for \<open>n = 0\<close>.
\<close>

fun strings_SplitN :: "string \<Rightarrow> char \<Rightarrow> nat \<Rightarrow> string list" where
  "strings_SplitN s c 0 = []"
| "strings_SplitN s c (Suc 0) = [s]"
| "strings_SplitN [] c (Suc (Suc n)) = [[]]"
| "strings_SplitN (x # xs) c (Suc (Suc n)) =
     (if x = c then [] # strings_SplitN xs c (Suc n)
      else (case strings_SplitN xs c (Suc (Suc n)) of
              [] \<Rightarrow> [[x]]
            | p # ps \<Rightarrow> (x # p) # ps))"

text \<open>The requests that an error value can carry as its \<open>LastRequest\<close>.\<close>

record DescribeLogStreamsInput =
  dls_LogGroupName :: "string option"
  dls_LogStreamNamePrefix :: "string option"

record DescribeUserPoolClientInput =
  dupc_ClientId :: "string option"
  dupc_UserPoolId :: "string option"

datatype request =
    DescribeLogStreamsRequest DescribeLogStreamsInput
  | DescribeUserPoolClientRequest DescribeUserPoolClientInput

text \<open>
  The error values of the two handlers:
  \<^item> \<open>AWSError code message\<close>: an \<open>awserr.Error\<close> of the SDK;
  \<^item> \<open>OtherError message\<close>: any error that carries no AWS error code;
  \<^item> \<open>NotFoundError last request\<close>: \<open>&resource.NotFoundError{LastError, LastRequest}\<close>;
  \<^item> \<open>EmptyResultError request\<close>: \<open>tfresource.NewEmptyResultError(input)\<close>;
  \<^item> \<open>Wrapped action id err\<close>:
    \<open>fmt.Errorf("<action> CloudWatch Logs Log Stream (%s): %w", id, err)\<close>;
  \<^item> \<open>ImportIDFormat id usage\<close>:
    \<open>fmt.Errorf("wrong format of import ID (%s), use: '<usage>'", id)\<close>.
\<close>

datatype error =
    AWSError string string
  | OtherError string
  | NotFoundError "error option" request
  | EmptyResultError request
  | Wrapped string string error
  | ImportIDFormat string string

definition ErrCodeResourceNotFoundException :: string where
  "ErrCodeResourceNotFoundException = ''ResourceNotFoundException''"

definition ErrCodeConcurrentModificationException :: string where
  "ErrCodeConcurrentModificationException = ''ConcurrentModificationException''"

text \<open>
  \<open>tfawserr.ErrCodeEquals(err, code)\<close> (aws-sdk-go-base): \<open>errors.As\<close> finds an
  \<open>awserr.Error\<close> in the chain of \<open>err\<close> and its code is \<open>code\<close>. A nil error has
  no code. Only \<open>fmt.Errorf\<close> with \<open>%w\<close> has something to unwrap.
\<close>

fun error_code_is :: "error \<Rightarrow> string \<Rightarrow> bool" where
  "error_code_is (AWSError c m) code = (c = code)"
| "error_code_is (Wrapped a i e) code = error_code_is e code"
| "error_code_is (OtherError m) code = False"
| "error_code_is (NotFoundError l r) code = False"
| "error_code_is (EmptyResultError r) code = False"
| "error_code_is (ImportIDFormat i u) code = False"

definition ErrCodeEquals :: "error option \<Rightarrow> string \<Rightarrow> bool" where
  "ErrCodeEquals err code = (case err of None \<Rightarrow> False | Some e \<Rightarrow> error_code_is e code)"

text \<open>
  Modelled from the spec: \<open>tfresource.NotFound\<close> is not under src/. The spec calls the
  result of a listing that ends with no match "a not-found error", and a Read that meets
  "not found" drops the local state: \<open>NotFound\<close> holds of a \<open>NotFoundError\<close> and of
  an \<open>EmptyResultError\<close> (which answers \<open>errors.As\<close> for a \<open>NotFoundError\<close>), also
  behind a \<open>%w\<close>, and of no other error; a nil error is not "not found".
\<close>

fun is_not_found :: "error \<Rightarrow> bool" where
  "is_not_found (NotFoundError l r) = True"
| "is_not_found (EmptyResultError r) = True"
| "is_not_found (Wrapped a i e) = is_not_found e"
| "is_not_found (AWSError c m) = False"
| "is_not_found (OtherError m) = False"
| "is_not_found (ImportIDFormat i u) = False"

definition NotFound :: "error option \<Rightarrow> bool" where
  "NotFound err = (case err of None \<Rightarrow> False | Some e \<Rightarrow> is_not_found e)"

section \<open>CloudWatch Logs: the log stream resource (internal/service/logs/stream.go)\<close>

subsection \<open>The remote service\<close>

text \<open>
  \<open>cloudwatchlogs.LogStream\<close>, with the two fields the handler reads. The elements of
  \<open>page.LogStreams\<close> are the structs the SDK allocates while it decodes a response.
\<close>

record LogStream =
  Arn :: "string option"
  LogStreamName :: "string option"

record DescribeLogStreamsOutput =
  LogStreams :: "LogStream list"

record CreateLogStreamInput =
  cls_LogGroupName :: "string option"
  cls_LogStreamName :: "string option"

record DeleteLogStreamInput =
  dels_LogGroupName :: "string option"
  dels_LogStreamName :: "string option"

text \<open>
  One page request of a listing: the service fails it, or answers with a page (which the
  callback of the handler is prepared to receive as nil).
\<close>

type_synonym fetch = "error + DescribeLogStreamsOutput option"

text \<open>
  The connection \<open>conn\<close>, as far as one run of a handler sees it: what the service
  answers to each call. A listing is the list of the answers to its successive page
  requests, in order; the page that is the last element carries no next token.
\<close>

record LogsConn =
  CreateLogStream :: "CreateLogStreamInput \<Rightarrow> error option"
  DescribeLogStreams :: "DescribeLogStreamsInput \<Rightarrow> fetch list"
  DeleteLogStream :: "DeleteLogStreamInput \<Rightarrow> error option"

text \<open>
  \<open>DescribeLogStreamsPages(input, fn)\<close> of the SDK: request the pages one after the
  other and hand each to \<open>fn\<close> with \<open>lastPage\<close> (no page follows), until \<open>fn\<close>
  answers false, the pages end, or a request fails; the failure is the result. The
  variables \<open>fn\<close> captures are the state \<open>s\<close>.
\<close>

fun DescribeLogStreamsPages ::
  "fetch list \<Rightarrow> (DescribeLogStreamsOutput option \<Rightarrow> bool \<Rightarrow> 's \<Rightarrow> bool \<times> 's) \<Rightarrow> 's
   \<Rightarrow> error option \<times> 's" where
  "DescribeLogStreamsPages [] fn s = (None, s)"
| "DescribeLogStreamsPages (Inl e # rest) fn s = (Some e, s)"
| "DescribeLogStreamsPages (Inr page # rest) fn s =
     (let (continue, s') = fn page (rest = []) s
      in if continue then DescribeLogStreamsPages rest fn s' else (None, s'))"

subsection \<open>FindLogStreamByTwoPartKey\<close>

text \<open>
  The loop \<open>for _, v := range page.LogStreams\<close> of the callback: the first stream whose
  name, read with \<open>aws.StringValue\<close>, is \<open>name\<close>.
\<close>

fun range_LogStreams :: "string \<Rightarrow> LogStream list \<Rightarrow> LogStream option" where
  "range_LogStreams name [] = None"
| "range_LogStreams name (v # vs) =
     (if StringValue (LogStreamName v) = name then Some v else range_LogStreams name vs)"

text \<open>
  The callback handed to \<open>DescribeLogStreamsPages\<close>; its state is the captured variable
  \<open>output\<close>, and its result says whether to go on.
\<close>

definition page_callback ::
  "string \<Rightarrow> DescribeLogStreamsOutput option \<Rightarrow> bool \<Rightarrow> LogStream option
   \<Rightarrow> bool \<times> LogStream option" where
  "page_callback name page lastPage output =
     (case page of
        None \<Rightarrow> (\<not> lastPage, output)
      | Some p \<Rightarrow>
          (case range_LogStreams name (LogStreams p) of
             Some v \<Rightarrow> (False, Some v)
           | None \<Rightarrow> (\<not> lastPage, output)))"

definition FindLogStreamByTwoPartKey ::
  "LogsConn \<Rightarrow> string \<Rightarrow> string \<Rightarrow> LogStream option \<times> error option" where
  "FindLogStreamByTwoPartKey conn logGroupName name =
     (let input = \<lparr>dls_LogGroupName = Some logGroupName, dls_LogStreamNamePrefix = Some name\<rparr>;
          (err, output) =
             DescribeLogStreamsPages (DescribeLogStreams conn input) (page_callback name) None
      in if ErrCodeEquals err ErrCodeResourceNotFoundException
         then (None, Some (NotFoundError err (DescribeLogStreamsRequest input)))
         else if err \<noteq> None then (None, err)
         else if output = None
         then (None, Some (EmptyResultError (DescribeLogStreamsRequest input)))
         else (output, None))"

text \<open>The streams a page holds: none for a nil page.\<close>

definition streams_of :: "DescribeLogStreamsOutput option \<Rightarrow> LogStream list" where
  "streams_of page = (case page of None \<Rightarrow> [] | Some p \<Rightarrow> LogStreams p)"

subsection \<open>The handlers\<close>

text \<open>
  \<open>schema.ResourceData\<close>: the id (\<open>d.Id()\<close>, here \<open>Id'\<close>), the attributes by name,
  and the flag the SDK sets while a resource is being created. \<open>d.Get(key).(string)\<close> of an attribute that is not
  set is the empty string; \<open>d.Set(key, p)\<close> with a nil pointer removes it.
\<close>

record ResourceData =
  Id' :: string
  attrs :: "string \<rightharpoonup> string"
  IsNewResource :: bool

definition Get :: "ResourceData \<Rightarrow> string \<Rightarrow> string" where
  "Get d key = (case attrs d key of None \<Rightarrow> [] | Some s \<Rightarrow> s)"

definition Set_attr :: "ResourceData \<Rightarrow> string \<Rightarrow> string option \<Rightarrow> ResourceData" where
  "Set_attr d key p = d\<lparr>attrs := (attrs d)(key := p)\<rparr>"

definition SetId :: "ResourceData \<Rightarrow> string \<Rightarrow> ResourceData" where
  "SetId d v = d\<lparr>Id' := v\<rparr>"

definition resourceStreamRead :: "ResourceData \<Rightarrow> LogsConn \<Rightarrow> (ResourceData \<times> error option) go" where
  "resourceStreamRead d conn =
     (let (ls, err) = FindLogStreamByTwoPartKey conn (Get d ''log_group_name'') (Id' d)
      in if \<not> IsNewResource d \<and> NotFound err then Return (SetId d [], None)
         else (case err of
                 Some e \<Rightarrow> Return (d, Some (Wrapped ''reading'' (Id' d) e))
               | None \<Rightarrow>
                   (case ls of
                      None \<Rightarrow> Panic
                    | Some l \<Rightarrow>
                        Return (Set_attr (Set_attr d ''arn'' (Arn l)) ''name'' (LogStreamName l),
                                None))))"

definition resourceStreamCreate :: "ResourceData \<Rightarrow> LogsConn \<Rightarrow> (ResourceData \<times> error option) go" where
  "resourceStreamCreate d conn =
     (let name = Get d ''name'';
          input = \<lparr>cls_LogGroupName = Some (Get d ''log_group_name''),
                   cls_LogStreamName = Some name\<rparr>
      in (case CreateLogStream conn input of
            Some e \<Rightarrow> Return (d, Some (Wrapped ''creating'' name e))
          | None \<Rightarrow> resourceStreamRead (SetId d name) conn))"

definition resourceStreamDelete :: "ResourceData \<Rightarrow> LogsConn \<Rightarrow> error option" where
  "resourceStreamDelete d conn =
     (let err = DeleteLogStream conn
                  \<lparr>dels_LogGroupName = Some (Get d ''log_group_name''),
                   dels_LogStreamName = Some (Id' d)\<rparr>
      in if ErrCodeEquals err ErrCodeResourceNotFoundException then None
         else (case err of
                 Some e \<Rightarrow> Some (Wrapped ''deleting'' (Id' d) e)
               | None \<Rightarrow> None))"

text \<open>
  \<open>resourceStreamImport\<close> returns the resources to import and an error; the handler
  writes through the pointer \<open>d\<close>, and the written \<open>d\<close> is the element of the result.
\<close>

definition resourceStreamImport :: "ResourceData \<Rightarrow> ResourceData list \<times> error option" where
  "resourceStreamImport d =
     (let parts = strings_Split (Id' d) (CHR '':'')
      in if length parts \<noteq> 2
         then ([], Some (ImportIDFormat (Id' d) ''log-group-name:log-stream-name''))
         else (let logGroupName = parts ! 0;
                   logStreamName = parts ! 1
               in ([Set_attr (SetId d logStreamName) ''log_group_name'' (Some logGroupName)],
                   None)))"

text \<open>
  \<open>validStreamName\<close>: the warnings and the errors of the validator. The value is a Go
  string, whose \<open>len\<close> counts bytes as \<open>length\<close> counts the \<open>char\<close>s; the regular
  expression \<open>:\<close> matches a string that holds a colon.
\<close>

datatype validation_error =
    ColonsNotAllowed string
  | LengthOutOfRange string string

definition validStreamName :: "string \<Rightarrow> string \<Rightarrow> string list \<times> validation_error list" where
  "validStreamName v k =
     (let errors = [];
          errors = (if CHR '':'' \<in> set v then errors @ [ColonsNotAllowed k] else errors);
          errors = (if length v < 1 \<or> length v > 512
                    then errors @ [LengthOutOfRange k v] else errors)
      in ([], errors))"

section \<open>Cognito: the user pool client resource (internal/service/cognitoidp/user_pool_client.go)\<close>

subsection \<open>Values of the plugin framework\<close>

text \<open>
  A value of the framework (\<open>types.Int64\<close>, \<open>types.String\<close>, \<open>types.Bool\<close>,
  \<open>types.Set\<close>, \<open>types.List\<close>, \<open>fwtypes.ARN\<close>) is null, unknown or known. The
  elements of a set are strings; the elements of a list are the objects of a nested block.
\<close>

datatype 'a fw = Null | Unknown | Known 'a

definition ValueString :: "string fw \<Rightarrow> string" where
  "ValueString v = (case v of Known s \<Rightarrow> s | _ \<Rightarrow> [])"

text \<open>
  \<open>diag.Diagnostics\<close>: errors and warnings, each with a summary and a detail. The
  detail is a text, or the text \<open>err.Error()\<close> of an error. \<open>Append\<close> leaves out a
  diagnostic that the list already holds.
\<close>

datatype detail = Text string | ErrorText error

datatype diagnostic = ErrorDiagnostic string detail | WarningDiagnostic string detail

type_synonym diagnostics = "diagnostic list"

fun HasError :: "diagnostics \<Rightarrow> bool" where
  "HasError [] = False"
| "HasError (ErrorDiagnostic s d # ds) = True"
| "HasError (WarningDiagnostic s d # ds) = HasError ds"

fun Append :: "diagnostics \<Rightarrow> diagnostics \<Rightarrow> diagnostics" where
  "Append diags [] = diags"
| "Append diags (d # ds) = Append (if d \<in> set diags then diags else diags @ [d]) ds"

definition AddError :: "diagnostics \<Rightarrow> string \<Rightarrow> detail \<Rightarrow> diagnostics" where
  "AddError diags summary dt = Append diags [ErrorDiagnostic summary dt]"

text \<open>
  \<open>list.ElementsAs(ctx, &target, false)\<close> of the framework, into a slice of structs: a
  null list gives the nil slice, a known list its elements, and an unknown list cannot be
  converted, which is an error diagnostic.
\<close>

definition ElementsAs :: "'a list fw \<Rightarrow> 'a list \<times> diagnostics" where
  "ElementsAs l =
     (case l of
        Null \<Rightarrow> ([], [])
      | Known xs \<Rightarrow> (xs, [])
      | Unknown \<Rightarrow>
          ([], [ErrorDiagnostic ''Value Conversion Error''
                  (Text ''unhandled unknown value'')]))"

subsection \<open>ARNs\<close>

text \<open>\<open>arn.ARN\<close>, \<open>arn.Parse\<close> and \<open>ARN.String\<close> of the AWS SDK.\<close>

record arn =
  Partition :: string
  Service :: string
  Region :: string
  AccountID :: string
  Resource :: string

definition arn_zero :: arn where
  "arn_zero = \<lparr>Partition = [], Service = [], Region = [], AccountID = [], Resource = []\<rparr>"

definition arn_Parse :: "string \<Rightarrow> arn option" where
  "arn_Parse s =
     (if take 4 s \<noteq> ''arn:'' then None
      else (case strings_SplitN s (CHR '':'') 6 of
              [a, p, sv, r, acc, res] \<Rightarrow>
                Some \<lparr>Partition = p, Service = sv, Region = r, AccountID = acc, Resource = res\<rparr>
            | _ \<Rightarrow> None))"

definition arn_String :: "arn \<Rightarrow> string" where
  "arn_String a =
     ''arn:'' @ Partition a @ '':'' @ Service a @ '':'' @ Region a @ '':'' @ AccountID a
       @ '':'' @ Resource a"

subsection \<open>The conversions of internal/framework/flex\<close>

text \<open>
  Modelled from the spec: the package internal/framework/flex is not under src/. The spec
  describes the handler as a one-to-one translation between the configuration model and
  the remote payload, so each conversion is the one its name says, between a pointer and
  a framework value: a nil pointer is the null value and back; an unknown value has no
  pointer. The \<open>Legacy\<close> conversions do not tell the zero value from the absent one: to
  the framework nil is the zero value (\<open>0\<close>, the empty string, the empty set), and from
  the framework the zero value is nil.
\<close>

definition Int64ToFramework :: "int option \<Rightarrow> int fw" where
  "Int64ToFramework v = (case v of None \<Rightarrow> Null | Some i \<Rightarrow> Known i)"

definition Int64ToFrameworkLegacy :: "int option \<Rightarrow> int fw" where
  "Int64ToFrameworkLegacy v = (case v of None \<Rightarrow> Known 0 | Some i \<Rightarrow> Known i)"

definition Int64FromFramework :: "int fw \<Rightarrow> int option" where
  "Int64FromFramework v = (case v of Known i \<Rightarrow> Some i | _ \<Rightarrow> None)"

definition Int64FromFrameworkLegacy :: "int fw \<Rightarrow> int option" where
  "Int64FromFrameworkLegacy v =
     (case v of Known i \<Rightarrow> (if i = 0 then None else Some i) | _ \<Rightarrow> None)"

definition BoolToFramework :: "bool option \<Rightarrow> bool fw" where
  "BoolToFramework v = (case v of None \<Rightarrow> Null | Some b \<Rightarrow> Known b)"

definition BoolFromFramework :: "bool fw \<Rightarrow> bool option" where
  "BoolFromFramework v = (case v of Known b \<Rightarrow> Some b | _ \<Rightarrow> None)"

definition StringToFramework :: "string option \<Rightarrow> string fw" where
  "StringToFramework v = (case v of None \<Rightarrow> Null | Some s \<Rightarrow> Known s)"

definition StringToFrameworkLegacy :: "string option \<Rightarrow> string fw" where
  "StringToFrameworkLegacy v = (case v of None \<Rightarrow> Known [] | Some s \<Rightarrow> Known s)"

definition StringFromFramework :: "string fw \<Rightarrow> string option" where
  "StringFromFramework v = (case v of Known s \<Rightarrow> Some s | _ \<Rightarrow> None)"

definition StringFromFrameworkLegacy :: "string fw \<Rightarrow> string option" where
  "StringFromFrameworkLegacy v =
     (case v of Known s \<Rightarrow> (if s = [] then None else Some s) | _ \<Rightarrow> None)"

text \<open>A \<open>[]*string\<close> is a list of pointers, or the nil slice.\<close>

definition FlattenFrameworkStringSetLegacy :: "string option list option \<Rightarrow> string list fw" where
  "FlattenFrameworkStringSetLegacy vs =
     (case vs of None \<Rightarrow> Known [] | Some ps \<Rightarrow> Known (map StringValue ps))"

definition ExpandFrameworkStringSet :: "string list fw \<Rightarrow> string option list option" where
  "ExpandFrameworkStringSet s = (case s of Known xs \<Rightarrow> Some (map Some xs) | _ \<Rightarrow> None)"

text \<open>
  Modelled from the spec: \<open>flex.StringToFrameworkARN\<close> and \<open>flex.ARNStringFromFramework\<close>
  are not under src/. The first takes the diagnostics, so a string that is no ARN is an
  error diagnostic (the value is then the zero ARN); the second prints the ARN back.
\<close>

definition StringToFrameworkARN :: "string option \<Rightarrow> diagnostics \<Rightarrow> arn fw \<times> diagnostics" where
  "StringToFrameworkARN v diags =
     (case v of
        None \<Rightarrow> (Null, diags)
      | Some s \<Rightarrow>
          (case arn_Parse s of
             Some a \<Rightarrow> (Known a, diags)
           | None \<Rightarrow>
               (Known arn_zero,
                AddError diags ''Parsing Error''
                  (Text (''String '' @ s @ '' cannot be parsed as an ARN.'')))))"

definition ARNStringFromFramework :: "arn fw \<Rightarrow> string option" where
  "ARNStringFromFramework v = (case v of Known a \<Rightarrow> Some (arn_String a) | _ \<Rightarrow> None)"

subsection \<open>The nested blocks\<close>

record analyticsConfiguration =
  ApplicationARN :: "arn fw"
  ApplicationID :: "string fw"
  ExternalID :: "string fw"
  RoleARN :: "arn fw"
  UserDataShared :: "bool fw"

text \<open>\<open>cognitoidentityprovider.AnalyticsConfigurationType\<close>.\<close>

record AnalyticsConfigurationType =
  act_ApplicationArn :: "string option"
  act_ApplicationId :: "string option"
  act_ExternalId :: "string option"
  act_RoleArn :: "string option"
  act_UserDataShared :: "bool option"

record tokenValidityUnits =
  AccessToken :: "string fw"
  IdToken :: "string fw"
  RefreshToken :: "string fw"

text \<open>\<open>cognitoidentityprovider.TokenValidityUnitsType\<close>.\<close>

record TokenValidityUnitsType =
  tvut_AccessToken :: "string option"
  tvut_IdToken :: "string option"
  tvut_RefreshToken :: "string option"

text \<open>The method \<open>(ac *analyticsConfiguration) expand\<close>; the receiver may be nil.\<close>

definition analyticsConfiguration_expand ::
  "analyticsConfiguration option \<Rightarrow> AnalyticsConfigurationType option" where
  "analyticsConfiguration_expand ac =
     (case ac of
        None \<Rightarrow> None
      | Some a \<Rightarrow>
          Some \<lparr>act_ApplicationArn = ARNStringFromFramework (ApplicationARN a),
                act_ApplicationId = StringFromFramework (ApplicationID a),
                act_ExternalId = StringFromFramework (ExternalID a),
                act_RoleArn = ARNStringFromFramework (RoleARN a),
                act_UserDataShared = BoolFromFramework (UserDataShared a)\<rparr>)"

text \<open>
  The expansion functions write to the diagnostics they are given (a pointer in the
  source): the result is the struct and the diagnostics after the call.
\<close>

definition expandAnaylticsConfiguration ::
  "analyticsConfiguration list fw \<Rightarrow> diagnostics
   \<Rightarrow> AnalyticsConfigurationType option \<times> diagnostics" where
  "expandAnaylticsConfiguration l diags =
     (let (analytics, ds) = ElementsAs l;
          diags = Append diags ds
      in if HasError diags then (None, diags)
         else if length analytics = 1
         then (analyticsConfiguration_expand (Some (analytics ! 0)), diags)
         else (None, diags))"

definition flattenAnaylticsConfiguration ::
  "AnalyticsConfigurationType option \<Rightarrow> diagnostics
   \<Rightarrow> analyticsConfiguration list fw \<times> diagnostics" where
  "flattenAnaylticsConfiguration ac diags =
     (case ac of
        None \<Rightarrow> (Null, diags)
      | Some a \<Rightarrow>
          (let (application_arn, diags) = StringToFrameworkARN (act_ApplicationArn a) diags;
               application_id = StringToFramework (act_ApplicationId a);
               external_id = StringToFramework (act_ExternalId a);
               (role_arn, diags) = StringToFrameworkARN (act_RoleArn a) diags;
               user_data_shared = BoolToFramework (act_UserDataShared a)
           in (Known [\<lparr>ApplicationARN = application_arn, ApplicationID = application_id,
                       ExternalID = external_id, RoleARN = role_arn,
                       UserDataShared = user_data_shared\<rparr>],
               diags)))"

text \<open>The method \<open>(tvu *tokenValidityUnits) expand\<close>.\<close>

definition tokenValidityUnits_expand ::
  "tokenValidityUnits option \<Rightarrow> TokenValidityUnitsType option" where
  "tokenValidityUnits_expand tvu =
     (case tvu of
        None \<Rightarrow> None
      | Some u \<Rightarrow>
          Some \<lparr>tvut_AccessToken = StringFromFramework (AccessToken u),
                tvut_IdToken = StringFromFramework (IdToken u),
                tvut_RefreshToken = StringFromFramework (RefreshToken u)\<rparr>)"

definition expandTokenValidityUnits ::
  "tokenValidityUnits list fw \<Rightarrow> diagnostics \<Rightarrow> TokenValidityUnitsType option \<times> diagnostics" where
  "expandTokenValidityUnits l diags =
     (let (units, ds) = ElementsAs l;
          diags = Append diags ds
      in if HasError diags then (None, diags)
         else if length units = 1
         then (tokenValidityUnits_expand (Some (units ! 0)), diags)
         else (None, diags))"

definition flattenTokenValidityUnits :: "TokenValidityUnitsType option \<Rightarrow> tokenValidityUnits list fw" where
  "flattenTokenValidityUnits tvu =
     (case tvu of
        None \<Rightarrow> Null
      | Some u \<Rightarrow>
          (if tvut_AccessToken u = None \<and> tvut_IdToken u = None \<and> tvut_RefreshToken u = None
           then Null
           else Known [\<lparr>AccessToken = StringToFramework (tvut_AccessToken u),
                        IdToken = StringToFramework (tvut_IdToken u),
                        RefreshToken = StringToFramework (tvut_RefreshToken u)\<rparr>]))"

subsection \<open>The resource data and the payloads\<close>

text \<open>The struct \<open>resourceUserPoolClientData\<close>: the 24 attributes of the resource.\<close>

record resourceUserPoolClientData =
  AccessTokenValidity :: "int fw"
  AllowedOauthFlows :: "string list fw"
  AllowedOauthFlowsUserPoolClient :: "bool fw"
  AllowedOauthScopes :: "string list fw"
  AnalyticsConfiguration :: "analyticsConfiguration list fw"
  AuthSessionValidity :: "int fw"
  CallbackUrls :: "string list fw"
  ClientSecret :: "string fw"
  DefaultRedirectUri :: "string fw"
  EnablePropagateAdditionalUserContextData :: "bool fw"
  EnableTokenRevocation :: "bool fw"
  ExplicitAuthFlows :: "string list fw"
  GenerateSecret :: "bool fw"
  ID :: "string fw"
  IdTokenValidity :: "int fw"
  LogoutUrls :: "string list fw"
  Name :: "string fw"
  PreventUserExistenceErrors :: "string fw"
  ReadAttributes :: "string list fw"
  RefreshTokenValidity :: "int fw"
  SupportedIdentityProviders :: "string list fw"
  TokenValidityUnits :: "tokenValidityUnits list fw"
  UserPoolID :: "string fw"
  WriteAttributes :: "string list fw"

text \<open>
  \<open>cognitoidentityprovider.UserPoolClientType\<close>, with the fields the handler reads (the
  two dates of the SDK's struct are read nowhere).
\<close>

record UserPoolClientType =
  upc_AccessTokenValidity :: "int option"
  upc_AllowedOAuthFlows :: "string option list option"
  upc_AllowedOAuthFlowsUserPoolClient :: "bool option"
  upc_AllowedOAuthScopes :: "string option list option"
  upc_AnalyticsConfiguration :: "AnalyticsConfigurationType option"
  upc_AuthSessionValidity :: "int option"
  upc_CallbackURLs :: "string option list option"
  upc_ClientId :: "string option"
  upc_ClientName :: "string option"
  upc_ClientSecret :: "string option"
  upc_DefaultRedirectURI :: "string option"
  upc_EnablePropagateAdditionalUserContextData :: "bool option"
  upc_EnableTokenRevocation :: "bool option"
  upc_ExplicitAuthFlows :: "string option list option"
  upc_IdTokenValidity :: "int option"
  upc_LogoutURLs :: "string option list option"
  upc_PreventUserExistenceErrors :: "string option"
  upc_ReadAttributes :: "string option list option"
  upc_RefreshTokenValidity :: "int option"
  upc_SupportedIdentityProviders :: "string option list option"
  upc_TokenValidityUnits :: "TokenValidityUnitsType option"
  upc_UserPoolId :: "string option"
  upc_WriteAttributes :: "string option list option"

record CreateUserPoolClientInput =
  cin_AccessTokenValidity :: "int option"
  cin_AllowedOAuthFlows :: "string option list option"
  cin_AllowedOAuthFlowsUserPoolClient :: "bool option"
  cin_AllowedOAuthScopes :: "string option list option"
  cin_AnalyticsConfiguration :: "AnalyticsConfigurationType option"
  cin_AuthSessionValidity :: "int option"
  cin_CallbackURLs :: "string option list option"
  cin_ClientName :: "string option"
  cin_DefaultRedirectURI :: "string option"
  cin_EnablePropagateAdditionalUserContextData :: "bool option"
  cin_EnableTokenRevocation :: "bool option"
  cin_ExplicitAuthFlows :: "string option list option"
  cin_GenerateSecret :: "bool option"
  cin_IdTokenValidity :: "int option"
  cin_LogoutURLs :: "string option list option"
  cin_PreventUserExistenceErrors :: "string option"
  cin_ReadAttributes :: "string option list option"
  cin_RefreshTokenValidity :: "int option"
  cin_SupportedIdentityProviders :: "string option list option"
  cin_TokenValidityUnits :: "TokenValidityUnitsType option"
  cin_UserPoolId :: "string option"
  cin_WriteAttributes :: "string option list option"

record UpdateUserPoolClientInput =
  uin_AccessTokenValidity :: "int option"
  uin_AllowedOAuthFlows :: "string option list option"
  uin_AllowedOAuthFlowsUserPoolClient :: "bool option"
  uin_AllowedOAuthScopes :: "string option list option"
  uin_AnalyticsConfiguration :: "AnalyticsConfigurationType option"
  uin_AuthSessionValidity :: "int option"
  uin_CallbackURLs :: "string option list option"
  uin_ClientId :: "string option"
  uin_ClientName :: "string option"
  uin_DefaultRedirectURI :: "string option"
  uin_EnablePropagateAdditionalUserContextData :: "bool option"
  uin_EnableTokenRevocation :: "bool option"
  uin_ExplicitAuthFlows :: "string option list option"
  uin_IdTokenValidity :: "int option"
  uin_LogoutURLs :: "string option list option"
  uin_PreventUserExistenceErrors :: "string option"
  uin_ReadAttributes :: "string option list option"
  uin_RefreshTokenValidity :: "int option"
  uin_SupportedIdentityProviders :: "string option list option"
  uin_TokenValidityUnits :: "TokenValidityUnitsType option"
  uin_UserPoolId :: "string option"
  uin_WriteAttributes :: "string option list option"

record DeleteUserPoolClientInput =
  del_ClientId :: "string option"
  del_UserPoolId :: "string option"

text \<open>
  The method \<open>update\<close>: 23 assignments to the fields of \<open>data\<close> from the client \<open>in\<close>
  of a response. \<open>in\<close> is a pointer that the method dereferences.
\<close>

definition update ::
  "resourceUserPoolClientData \<Rightarrow> UserPoolClientType option \<Rightarrow> diagnostics
   \<Rightarrow> (resourceUserPoolClientData \<times> diagnostics) go" where
  "update data inp diags =
     (case inp of
        None \<Rightarrow> Panic
      | Some i \<Rightarrow>
          (let (analytics, diags) =
                 flattenAnaylticsConfiguration (upc_AnalyticsConfiguration i) diags
           in Return
                (data\<lparr>AccessTokenValidity := Int64ToFrameworkLegacy (upc_AccessTokenValidity i),
                   AllowedOauthFlows := FlattenFrameworkStringSetLegacy (upc_AllowedOAuthFlows i),
                   AllowedOauthFlowsUserPoolClient :=
                     BoolToFramework (upc_AllowedOAuthFlowsUserPoolClient i),
                   AllowedOauthScopes := FlattenFrameworkStringSetLegacy (upc_AllowedOAuthScopes i),
                   AnalyticsConfiguration := analytics,
                   AuthSessionValidity := Int64ToFramework (upc_AuthSessionValidity i),
                   CallbackUrls := FlattenFrameworkStringSetLegacy (upc_CallbackURLs i),
                   ClientSecret := StringToFrameworkLegacy (upc_ClientSecret i),
                   DefaultRedirectUri := StringToFrameworkLegacy (upc_DefaultRedirectURI i),
                   EnablePropagateAdditionalUserContextData :=
                     BoolToFramework (upc_EnablePropagateAdditionalUserContextData i),
                   EnableTokenRevocation := BoolToFramework (upc_EnableTokenRevocation i),
                   ExplicitAuthFlows := FlattenFrameworkStringSetLegacy (upc_ExplicitAuthFlows i),
                   ID := StringToFramework (upc_ClientId i),
                   IdTokenValidity := Int64ToFrameworkLegacy (upc_IdTokenValidity i),
                   LogoutUrls := FlattenFrameworkStringSetLegacy (upc_LogoutURLs i),
                   Name := StringToFramework (upc_ClientName i),
                   PreventUserExistenceErrors :=
                     StringToFrameworkLegacy (upc_PreventUserExistenceErrors i),
                   ReadAttributes := FlattenFrameworkStringSetLegacy (upc_ReadAttributes i),
                   RefreshTokenValidity := Int64ToFramework (upc_RefreshTokenValidity i),
                   SupportedIdentityProviders :=
                     FlattenFrameworkStringSetLegacy (upc_SupportedIdentityProviders i),
                   TokenValidityUnits := flattenTokenValidityUnits (upc_TokenValidityUnits i),
                   UserPoolID := StringToFramework (upc_UserPoolId i),
                   WriteAttributes := FlattenFrameworkStringSetLegacy (upc_WriteAttributes i)\<rparr>,
                 diags)))"

text \<open>
  The inputs of the remote calls. The fields of a struct literal are evaluated in their
  order, so the two expansion functions see the diagnostics one after the other.
\<close>

definition createInput ::
  "resourceUserPoolClientData \<Rightarrow> diagnostics \<Rightarrow> CreateUserPoolClientInput \<times> diagnostics" where
  "createInput data diags =
     (let (analytics, diags) = expandAnaylticsConfiguration (AnalyticsConfiguration data) diags;
          (units, diags) = expandTokenValidityUnits (TokenValidityUnits data) diags
      in (\<lparr>cin_AccessTokenValidity = Int64FromFrameworkLegacy (AccessTokenValidity data),
           cin_AllowedOAuthFlows = ExpandFrameworkStringSet (AllowedOauthFlows data),
           cin_AllowedOAuthFlowsUserPoolClient =
             BoolFromFramework (AllowedOauthFlowsUserPoolClient data),
           cin_AllowedOAuthScopes = ExpandFrameworkStringSet (AllowedOauthScopes data),
           cin_AnalyticsConfiguration = analytics,
           cin_AuthSessionValidity = Int64FromFramework (AuthSessionValidity data),
           cin_CallbackURLs = ExpandFrameworkStringSet (CallbackUrls data),
           cin_ClientName = StringFromFramework (Name data),
           cin_DefaultRedirectURI = StringFromFrameworkLegacy (DefaultRedirectUri data),
           cin_EnablePropagateAdditionalUserContextData =
             BoolFromFramework (EnablePropagateAdditionalUserContextData data),
           cin_EnableTokenRevocation = BoolFromFramework (EnableTokenRevocation data),
           cin_ExplicitAuthFlows = ExpandFrameworkStringSet (ExplicitAuthFlows data),
           cin_GenerateSecret = BoolFromFramework (GenerateSecret data),
           cin_IdTokenValidity = Int64FromFrameworkLegacy (IdTokenValidity data),
           cin_LogoutURLs = ExpandFrameworkStringSet (LogoutUrls data),
           cin_PreventUserExistenceErrors =
             StringFromFrameworkLegacy (PreventUserExistenceErrors data),
           cin_ReadAttributes = ExpandFrameworkStringSet (ReadAttributes data),
           cin_RefreshTokenValidity = Int64FromFramework (RefreshTokenValidity data),
           cin_SupportedIdentityProviders =
             ExpandFrameworkStringSet (SupportedIdentityProviders data),
           cin_TokenValidityUnits = units,
           cin_UserPoolId = StringFromFramework (UserPoolID data),
           cin_WriteAttributes = ExpandFrameworkStringSet (WriteAttributes data)\<rparr>,
          diags))"

definition updateInput ::
  "resourceUserPoolClientData \<Rightarrow> diagnostics \<Rightarrow> UpdateUserPoolClientInput \<times> diagnostics" where
  "updateInput data diags =
     (let (analytics, diags) = expandAnaylticsConfiguration (AnalyticsConfiguration data) diags;
          (units, diags) = expandTokenValidityUnits (TokenValidityUnits data) diags
      in (\<lparr>uin_AccessTokenValidity = Int64FromFrameworkLegacy (AccessTokenValidity data),
           uin_AllowedOAuthFlows = ExpandFrameworkStringSet (AllowedOauthFlows data),
           uin_AllowedOAuthFlowsUserPoolClient =
             BoolFromFramework (AllowedOauthFlowsUserPoolClient data),
           uin_AllowedOAuthScopes = ExpandFrameworkStringSet (AllowedOauthScopes data),
           uin_AnalyticsConfiguration = analytics,
           uin_AuthSessionValidity = Int64FromFramework (AuthSessionValidity data),
           uin_CallbackURLs = ExpandFrameworkStringSet (CallbackUrls data),
           uin_ClientId = StringFromFramework (ID data),
           uin_ClientName = StringFromFramework (Name data),
           uin_DefaultRedirectURI = StringFromFrameworkLegacy (DefaultRedirectUri data),
           uin_EnablePropagateAdditionalUserContextData =
             BoolFromFramework (EnablePropagateAdditionalUserContextData data),
           uin_EnableTokenRevocation = BoolFromFramework (EnableTokenRevocation data),
           uin_ExplicitAuthFlows = ExpandFrameworkStringSet (ExplicitAuthFlows data),
           uin_IdTokenValidity = Int64FromFrameworkLegacy (IdTokenValidity data),
           uin_LogoutURLs = ExpandFrameworkStringSet (LogoutUrls data),
           uin_PreventUserExistenceErrors =
             StringFromFrameworkLegacy (PreventUserExistenceErrors data),
           uin_ReadAttributes = ExpandFrameworkStringSet (ReadAttributes data),
           uin_RefreshTokenValidity = Int64FromFramework (RefreshTokenValidity data),
           uin_SupportedIdentityProviders =
             ExpandFrameworkStringSet (SupportedIdentityProviders data),
           uin_TokenValidityUnits = units,
           uin_UserPoolId = StringFromFramework (UserPoolID data),
           uin_WriteAttributes = ExpandFrameworkStringSet (WriteAttributes data)\<rparr>,
          diags))"

definition deleteInput :: "resourceUserPoolClientData \<Rightarrow> DeleteUserPoolClientInput" where
  "deleteInput data =
     \<lparr>del_ClientId = StringFromFramework (ID data),
      del_UserPoolId = StringFromFramework (UserPoolID data)\<rparr>"

subsection \<open>The remote service and the helpers around it\<close>

text \<open>
  The connection, as far as one run of a handler sees it. A successful call answers with
  an output whose \<open>UserPoolClient\<close> is a pointer. The update call may be made several
  times in one run: \<open>UpdateUserPoolClient conn k\<close> is the answer to call number \<open>k\<close>
  (from 0), with the time in milliseconds that the call takes, waiting included.
\<close>

record CognitoIDPConn =
  CreateUserPoolClient :: "CreateUserPoolClientInput \<Rightarrow> error + UserPoolClientType option"
  DescribeUserPoolClient :: "DescribeUserPoolClientInput \<Rightarrow> error + UserPoolClientType option"
  UpdateUserPoolClient ::
    "nat \<Rightarrow> UpdateUserPoolClientInput \<Rightarrow> nat \<times> (error + UserPoolClientType option)"
  DeleteUserPoolClient :: "DeleteUserPoolClientInput \<Rightarrow> error option"

text \<open>
  Modelled from the spec: \<open>FindCognitoUserPoolClientByID\<close> is not under src/. Read
  "fetches by key", and the remote "not found" is what Read answers by removing the local
  state: the helper describes the client with the two ids, turns the error code
  \<open>ResourceNotFoundException\<close> into a \<open>NotFoundError\<close>, passes any other error on,
  and reports an answer without a client as an empty result.
\<close>

definition FindCognitoUserPoolClientByID ::
  "CognitoIDPConn \<Rightarrow> string \<Rightarrow> string \<Rightarrow> UserPoolClientType option \<times> error option" where
  "FindCognitoUserPoolClientByID conn userPoolID clientID =
     (let input = \<lparr>dupc_ClientId = Some clientID, dupc_UserPoolId = Some userPoolID\<rparr>
      in (case DescribeUserPoolClient conn input of
            Inl e \<Rightarrow>
              (if error_code_is e ErrCodeResourceNotFoundException
               then (None, Some (NotFoundError (Some e) (DescribeUserPoolClientRequest input)))
               else (None, Some e))
          | Inr None \<Rightarrow> (None, Some (EmptyResultError (DescribeUserPoolClientRequest input)))
          | Inr (Some c) \<Rightarrow> (Some c, None)))"

text \<open>\<open>time.Minute\<close>, in milliseconds.\<close>

definition time_Minute :: nat where
  "time_Minute = 60000"

text \<open>
  Modelled from the spec: \<open>tfresource.RetryWhenAWSErrCodeEquals\<close> is not under src/. The
  spec has it "poll/retry on a specific error code" with a "total timeout", "retried
  transparently up to a timeout, then surfaced": the helper calls \<open>f\<close>; an answer
  without error is the result; an error with the given code is retried while the time
  spent so far is below the timeout; any other error, and the error of the call that
  used the time up, is the result. A call takes at least a millisecond. The result comes
  with the number of calls made. \<open>k\<close> is the number of the next call and \<open>elapsed\<close>
  the time spent so far.
\<close>

function RetryWhenAWSErrCodeEquals ::
  "nat \<Rightarrow> (nat \<Rightarrow> nat \<times> (error + 'a)) \<Rightarrow> string \<Rightarrow> nat \<Rightarrow> nat \<Rightarrow> nat \<times> (error + 'a)" where
  "RetryWhenAWSErrCodeEquals timeout f code k elapsed =
     (case snd (f k) of
        Inr out \<Rightarrow> (Suc k, Inr out)
      | Inl e \<Rightarrow>
          (if error_code_is e code \<and> elapsed + max 1 (fst (f k)) < timeout
           then RetryWhenAWSErrCodeEquals timeout f code (Suc k) (elapsed + max 1 (fst (f k)))
           else (Suc k, Inl e)))"
  by pat_completeness auto
termination
  by (relation "measure (\<lambda>(timeout, f, code, k, elapsed). timeout - elapsed)") auto

declare RetryWhenAWSErrCodeEquals.simps [simp del]

text \<open>
  Modelled from the spec: \<open>create.DiagErrorFramework\<close> is not under src/. A failed remote
  call is "surfaced with resource-identifying context": an error diagnostic whose summary
  names the action, the service, the resource and its id, and whose detail is the error.
\<close>

definition DiagErrorFramework ::
  "string \<Rightarrow> string \<Rightarrow> string \<Rightarrow> string \<Rightarrow> error \<Rightarrow> diagnostic" where
  "DiagErrorFramework service action resource ident err =
     ErrorDiagnostic (action @ '' '' @ service @ '' '' @ resource @ '' ('' @ ident @ '')'')
       (ErrorText err)"

subsection \<open>The handlers\<close>

text \<open>
  \<open>request.Config.Get(ctx, &config)\<close> decodes a value of the request into a struct and
  returns diagnostics: a request carries, for each of its values, the diagnostics and the
  struct of that call. A response holds the diagnostics and the state (\<open>None\<close>: no
  resource); the framework hands the handler the response to write to, and
  \<open>response.State.Set\<close> of a struct of the resource's own type stores it.
\<close>

type_synonym 'a got = "diagnostics \<times> 'a"

record Response =
  Diagnostics :: diagnostics
  State :: "resourceUserPoolClientData option"

record CreateRequest =
  creq_Config :: "resourceUserPoolClientData got"
  creq_Plan :: "resourceUserPoolClientData got"

record ReadRequest =
  rreq_State :: "resourceUserPoolClientData got"

record UpdateRequest =
  ureq_Config :: "resourceUserPoolClientData got"
  ureq_Plan :: "resourceUserPoolClientData got"

record DeleteRequest =
  dreq_State :: "resourceUserPoolClientData got"

text \<open>
  The tail that Create, Read and Update share: \<open>data.update(ctx, poolClient, diags)\<close>,
  return on an error, else \<open>response.State.Set(ctx, &data)\<close>.
\<close>

definition update_and_set ::
  "resourceUserPoolClientData \<Rightarrow> UserPoolClientType option \<Rightarrow> Response \<Rightarrow> Response go" where
  "update_and_set data poolClient response =
     (case update data poolClient (Diagnostics response) of
        Panic \<Rightarrow> Panic
      | Return (data', diags) \<Rightarrow>
          (let response = response\<lparr>Diagnostics := diags\<rparr>
           in if HasError (Diagnostics response) then Return response
              else Return (response\<lparr>State := Some data'\<rparr>)))"

definition Create :: "CognitoIDPConn \<Rightarrow> CreateRequest \<Rightarrow> Response \<Rightarrow> Response go" where
  "Create conn request response =
     (let (ds, config) = creq_Config request;
          response = response\<lparr>Diagnostics := Append (Diagnostics response) ds\<rparr>
      in if HasError (Diagnostics response) then Return response
         else
          (let (ds, plan) = creq_Plan request;
               response = response\<lparr>Diagnostics := Append (Diagnostics response) ds\<rparr>
           in if HasError (Diagnostics response) then Return response
              else
               (let (params, diags) = createInput plan (Diagnostics response);
                    response = response\<lparr>Diagnostics := diags\<rparr>
                in if HasError (Diagnostics response) then Return response
                   else
                    (case CreateUserPoolClient conn params of
                       Inl err \<Rightarrow>
                         Return (response\<lparr>Diagnostics :=
                           AddError (Diagnostics response)
                             (''creating Cognito User Pool Client ('' @ ValueString (Name plan) @ '')'')
                             (ErrorText err)\<rparr>)
                     | Inr poolClient \<Rightarrow> update_and_set config poolClient response))))"

definition Read :: "CognitoIDPConn \<Rightarrow> ReadRequest \<Rightarrow> Response \<Rightarrow> Response go" where
  "Read conn request response =
     (let (ds, state) = rreq_State request;
          response = response\<lparr>Diagnostics := Append (Diagnostics response) ds\<rparr>
      in if HasError (Diagnostics response) then Return response
         else
          (let (poolClient, err) =
                 FindCognitoUserPoolClientByID conn (ValueString (UserPoolID state))
                   (ValueString (ID state))
           in if NotFound err then Return (response\<lparr>State := None\<rparr>)
              else
               (case err of
                  Some e \<Rightarrow>
                    Return (response\<lparr>Diagnostics :=
                      Append (Diagnostics response)
                        [DiagErrorFramework ''Cognito IDP'' ''reading'' ''User Pool Client''
                           (ValueString (ID state)) e]\<rparr>)
                | None \<Rightarrow> update_and_set state poolClient response)))"

definition Update :: "CognitoIDPConn \<Rightarrow> UpdateRequest \<Rightarrow> Response \<Rightarrow> Response go" where
  "Update conn request response =
     (let (ds, config) = ureq_Config request;
          response = response\<lparr>Diagnostics := Append (Diagnostics response) ds\<rparr>
      in if HasError (Diagnostics response) then Return response
         else
          (let (ds, plan) = ureq_Plan request;
               response = response\<lparr>Diagnostics := Append (Diagnostics response) ds\<rparr>
           in if HasError (Diagnostics response) then Return response
              else
               (let (params, diags) = updateInput plan (Diagnostics response);
                    response = response\<lparr>Diagnostics := diags\<rparr>
                in if HasError (Diagnostics response) then Return response
                   else
                    (case snd (RetryWhenAWSErrCodeEquals (2 * time_Minute)
                                 (\<lambda>k. UpdateUserPoolClient conn k params)
                                 ErrCodeConcurrentModificationException 0 0) of
                       Inl err \<Rightarrow>
                         Return (response\<lparr>Diagnostics :=
                           AddError (Diagnostics response)
                             (''updating Cognito User Pool Client ('' @ ValueString (ID plan) @ '')'')
                             (ErrorText err)\<rparr>)
                     | Inr poolClient \<Rightarrow> update_and_set config poolClient response))))"

definition Delete :: "CognitoIDPConn \<Rightarrow> DeleteRequest \<Rightarrow> Response \<Rightarrow> Response" where
  "Delete conn request response =
     (let (ds, state) = dreq_State request;
          response = response\<lparr>Diagnostics := Append (Diagnostics response) ds\<rparr>
      in if HasError (Diagnostics response) then response
         else
          (let params = deleteInput state;
               err = DeleteUserPoolClient conn params
           in if ErrCodeEquals err ErrCodeResourceNotFoundException then response
              else
               (case err of
                  Some e \<Rightarrow>
                    response\<lparr>Diagnostics :=
                      AddError (Diagnostics response)
                        (''deleting Cognito User Pool Client ('' @ ValueString (ID state) @ '')'')
                        (ErrorText e)\<rparr>
                | None \<Rightarrow> response)))"

text \<open>
  \<open>ImportState\<close>: the response of an import holds the diagnostics and the attributes
  written with \<open>response.State.SetAttribute(ctx, path.Root(name), value)\<close>. An index
  expression \<open>parts[i]\<close> panics when the slice has no element \<open>i\<close>.
\<close>

record ImportStateResponse =
  imp_Diagnostics :: diagnostics
  imp_State :: "string \<rightharpoonup> string"

definition SetAttribute :: "ImportStateResponse \<Rightarrow> string \<Rightarrow> string \<Rightarrow> ImportStateResponse" where
  "SetAttribute response name v = response\<lparr>imp_State := (imp_State response)(name \<mapsto> v)\<rparr>"

definition ImportState :: "string \<Rightarrow> ImportStateResponse \<Rightarrow> ImportStateResponse go" where
  "ImportState request_ID response =
     (let parts = strings_Split request_ID (CHR ''/'');
          response =
            (if length parts \<noteq> 2
             then response\<lparr>imp_Diagnostics :=
                    AddError (imp_Diagnostics response) ''Resource Import Invalid ID''
                      (Text (''wrong format of import ID ('' @ request_ID
                             @ ''), use: '' @ [CHR 0x27] @ ''user-pool-id/client-id''
                             @ [CHR 0x27]))\<rparr>
             else response)
      in if \<not> 0 < length parts then Panic
         else
          (let userPoolId = parts ! 0
           in if \<not> 1 < length parts then Panic
              else
               (let clientId = parts ! 1;
                    response = SetAttribute response ''id'' clientId;
                    response = SetAttribute response ''user_pool_id'' userPoolId
                in Return response)))"

subsection \<open>Zero values\<close>

text \<open>
  The zero values of the two structs, as Go gives them to a declared variable: every
  attribute null, every pointer nil. They are the concrete inputs of the examples.
\<close>

definition zero_data :: resourceUserPoolClientData where
  "zero_data =
     \<lparr>AccessTokenValidity = Null, AllowedOauthFlows = Null,
      AllowedOauthFlowsUserPoolClient = Null, AllowedOauthScopes = Null,
      AnalyticsConfiguration = Null, AuthSessionValidity = Null, CallbackUrls = Null,
      ClientSecret = Null, DefaultRedirectUri = Null,
      EnablePropagateAdditionalUserContextData = Null, EnableTokenRevocation = Null,
      ExplicitAuthFlows = Null, GenerateSecret = Null, ID = Null, IdTokenValidity = Null,
      LogoutUrls = Null, Name = Null, PreventUserExistenceErrors = Null,
      ReadAttributes = Null, RefreshTokenValidity = Null, SupportedIdentityProviders = Null,
      TokenValidityUnits = Null, UserPoolID = Null, WriteAttributes = Null\<rparr>"

definition zero_client :: UserPoolClientType where
  "zero_client =
     \<lparr>upc_AccessTokenValidity = None, upc_AllowedOAuthFlows = None,
      upc_AllowedOAuthFlowsUserPoolClient = None, upc_AllowedOAuthScopes = None,
      upc_AnalyticsConfiguration = None, upc_AuthSessionValidity = None,
      upc_CallbackURLs = None, upc_ClientId = None, upc_ClientName = None,
      upc_ClientSecret = None, upc_DefaultRedirectURI = None,
      upc_EnablePropagateAdditionalUserContextData = None, upc_EnableTokenRevocation = None,
      upc_ExplicitAuthFlows = None, upc_IdTokenValidity = None, upc_LogoutURLs = None,
      upc_PreventUserExistenceErrors = None, upc_ReadAttributes = None,
      upc_RefreshTokenValidity = None, upc_SupportedIdentityProviders = None,
      upc_TokenValidityUnits = None, upc_UserPoolId = None, upc_WriteAttributes = None\<rparr>"

section \<open>Verification: the log stream resource\<close>

subsection \<open>Splitting an identifier\<close>

lemma strings_Split_length: "length (strings_Split s c) = Suc (count_list s c)"
  by (induction s) (auto split: list.splits)

lemma resourceStreamImport_segments:
  "(length (strings_Split (Id' d) (CHR '':'')) = 2 \<longrightarrow>
      resourceStreamImport d
      = ([d\<lparr>Id' := strings_Split (Id' d) (CHR '':'') ! 1,
             attrs := (attrs d)(''log_group_name'' \<mapsto> strings_Split (Id' d) (CHR '':'') ! 0)\<rparr>], None))
   \<and> (length (strings_Split (Id' d) (CHR '':'')) \<noteq> 2 \<longrightarrow>
      resourceStreamImport d = ([], Some (ImportIDFormat (Id' d) ''log-group-name:log-stream-name'')))"
  by (simp add: resourceStreamImport_def Let_def Set_attr_def SetId_def)

lemma ImportState_two_segments:
  "length (strings_Split request_ID (CHR ''/'')) = 2 \<Longrightarrow>
   ImportState request_ID response
   = Return (response\<lparr>imp_State := (imp_State response)
       (''id'' \<mapsto> strings_Split request_ID (CHR ''/'') ! 1,
        ''user_pool_id'' \<mapsto> strings_Split request_ID (CHR ''/'') ! 0)\<rparr>)"
  by (auto simp: ImportState_def Let_def SetAttribute_def)

text \<open>
  C1. Import succeeds and fills both key fields exactly when the identifier has two
  segments; with any other number of segments it fails with an error, fills nothing and
  does not crash. The log stream handler does so (\<open>resourceStreamImport_segments\<close>), and
  the user pool client handler does so for two segments (\<open>ImportState_two_segments\<close>).
  For any other number the user pool client handler adds its error and goes on, since no
  \<open>return\<close> follows \<open>AddError\<close>: an identifier without a slash has one segment and
  \<open>parts[1]\<close> panics; an identifier with two slashes gets the error and both fields.
\<close>

theorem ImportState_missing_return:
  "ImportState ''pool-1'' \<lparr>imp_Diagnostics = [], imp_State = Map.empty\<rparr> = Panic
   \<and> ImportState ''a/b/c'' \<lparr>imp_Diagnostics = [], imp_State = Map.empty\<rparr>
     = Return \<lparr>imp_Diagnostics =
                 [ErrorDiagnostic ''Resource Import Invalid ID''
                    (Text (''wrong format of import ID (a/b/c), use: '' @ [CHR 0x27]
                       @ ''user-pool-id/client-id'' @ [CHR 0x27]))],
               imp_State = [''id'' \<mapsto> ''b'', ''user_pool_id'' \<mapsto> ''a'']\<rparr>"
  by (simp add: ImportState_def SetAttribute_def AddError_def)

subsection \<open>The scan of the listing\<close>

lemma range_LogStreams_find:
  "range_LogStreams name vs = find (\<lambda>v. StringValue (LogStreamName v) = name) vs"
  by (induction vs) auto

lemma page_callback_no_match:
  "find (\<lambda>v. StringValue (LogStreamName v) = name) (streams_of page) = None
   \<Longrightarrow> page_callback name page lastPage out = (\<not> lastPage, out)"
  by (auto simp: page_callback_def streams_of_def range_LogStreams_find split: option.splits)

lemma page_callback_match:
  "find (\<lambda>v. StringValue (LogStreamName v) = name) (LogStreams p) = Some v
   \<Longrightarrow> page_callback name (Some p) lastPage out = (False, Some v)"
  by (simp add: page_callback_def range_LogStreams_find)

lemma pages_skip_unmatched:
  "find (\<lambda>v. StringValue (LogStreamName v) = name) (concat (map streams_of pages)) = None
   \<Longrightarrow> rest \<noteq> []
   \<Longrightarrow> DescribeLogStreamsPages (map Inr pages @ rest) (page_callback name) out
       = DescribeLogStreamsPages rest (page_callback name) out"
proof (induction pages)
  case Nil
  then show ?case by simp
next
  case (Cons q pages)
  from Cons.prems(1) have q: "find (\<lambda>v. StringValue (LogStreamName v) = name) (streams_of q) = None"
    and rest: "find (\<lambda>v. StringValue (LogStreamName v) = name) (concat (map streams_of pages)) = None"
    by (auto simp: find_None_iff)
  show ?case
    using Cons.prems(2) Cons.IH [OF rest Cons.prems(2)]
    by (simp add: page_callback_no_match [OF q])
qed

lemma pages_exhausted:
  "find (\<lambda>v. StringValue (LogStreamName v) = name) (concat (map streams_of pages)) = None
   \<Longrightarrow> DescribeLogStreamsPages (map Inr pages) (page_callback name) out = (None, out)"
proof (induction pages)
  case Nil
  then show ?case by simp
next
  case (Cons q pages)
  from Cons.prems have q: "find (\<lambda>v. StringValue (LogStreamName v) = name) (streams_of q) = None"
    and rest: "find (\<lambda>v. StringValue (LogStreamName v) = name) (concat (map streams_of pages)) = None"
    by (auto simp: find_None_iff)
  show ?case
    using Cons.IH [OF rest] by (simp add: page_callback_no_match [OF q])
qed

lemma nil_page_skipped:
  "DescribeLogStreamsPages (pre @ Inr None # rest) (page_callback name) out
   = DescribeLogStreamsPages (pre @ rest) (page_callback name) out"
proof (induction pre arbitrary: out)
  case Nil
  show ?case by (simp add: page_callback_def)
next
  case (Cons x pre)
  show ?case
  proof (cases x)
    case (Inl e)
    then show ?thesis by simp
  next
    case (Inr page)
    show ?thesis
    proof (cases "pre @ rest = []")
      case True
      then show ?thesis using Inr
        by (auto simp: page_callback_def split: option.splits)
    next
      case False
      then show ?thesis using Inr Cons.IH
        by (auto simp: page_callback_def split: option.splits)
    qed
  qed
qed

text \<open>
  C2. \<open>FindLogStreamByTwoPartKey\<close> lists the streams of the group with the name as
  prefix. Let the pages \<open>pages\<close> hold no stream whose name (read with
  \<open>aws.StringValue\<close>, so a nil name reads as the empty string) equals \<open>name\<close>. Then:
  \<^item> if the next page holds such a stream, the result is the first one of that page, and
    no error, whatever the listing holds after that page (\<open>rest\<close> is arbitrary: the scan
    has stopped);
  \<^item> if \<open>pages\<close> is the whole listing, the result is the empty-result error;
  \<^item> if the next request fails with the code \<open>ResourceNotFoundException\<close>, the result is
    a \<open>NotFoundError\<close> that carries the failure;
  \<^item> if it fails otherwise, the failure is the result.
\<close>

theorem FindLogStreamByTwoPartKey_scan:
  fixes conn :: LogsConn
  assumes "DescribeLogStreams conn
             \<lparr>dls_LogGroupName = Some logGroupName, dls_LogStreamNamePrefix = Some name\<rparr> = fetches"
    and "find (\<lambda>v. StringValue (LogStreamName v) = name) (concat (map streams_of pages)) = None"
  shows "(fetches = map Inr pages @ Inr (Some page) # rest \<and>
          find (\<lambda>v. StringValue (LogStreamName v) = name) (LogStreams page) = Some v
          \<longrightarrow> FindLogStreamByTwoPartKey conn logGroupName name = (Some v, None))
       \<and> (fetches = map Inr pages
          \<longrightarrow> FindLogStreamByTwoPartKey conn logGroupName name
              = (None, Some (EmptyResultError (DescribeLogStreamsRequest
                   \<lparr>dls_LogGroupName = Some logGroupName, dls_LogStreamNamePrefix = Some name\<rparr>))))
       \<and> (fetches = map Inr pages @ Inl e # rest \<and>
          error_code_is e ErrCodeResourceNotFoundException
          \<longrightarrow> FindLogStreamByTwoPartKey conn logGroupName name
              = (None, Some (NotFoundError (Some e) (DescribeLogStreamsRequest
                   \<lparr>dls_LogGroupName = Some logGroupName, dls_LogStreamNamePrefix = Some name\<rparr>))))
       \<and> (fetches = map Inr pages @ Inl e # rest \<and>
          \<not> error_code_is e ErrCodeResourceNotFoundException
          \<longrightarrow> FindLogStreamByTwoPartKey conn logGroupName name = (None, Some e))"
proof -
  have skip: "DescribeLogStreamsPages (map Inr pages @ x # xs) (page_callback name) None
      = DescribeLogStreamsPages (x # xs) (page_callback name) None" for x xs
    using pages_skip_unmatched [OF assms(2), of "x # xs" None] by simp
  have found: "FindLogStreamByTwoPartKey conn logGroupName name = (Some v, None)"
    if "fetches = map Inr pages @ Inr (Some page) # rest"
      and "find (\<lambda>v. StringValue (LogStreamName v) = name) (LogStreams page) = Some v"
    using that assms(1) skip [of "Inr (Some page)" rest]
    by (simp add: FindLogStreamByTwoPartKey_def page_callback_match ErrCodeEquals_def)
  have exhausted: "FindLogStreamByTwoPartKey conn logGroupName name
              = (None, Some (EmptyResultError (DescribeLogStreamsRequest
                   \<lparr>dls_LogGroupName = Some logGroupName, dls_LogStreamNamePrefix = Some name\<rparr>)))"
    if "fetches = map Inr pages"
    using that assms(1) pages_exhausted [OF assms(2), of None]
    by (simp add: FindLogStreamByTwoPartKey_def ErrCodeEquals_def)
  have failed: "FindLogStreamByTwoPartKey conn logGroupName name
      = (if error_code_is e ErrCodeResourceNotFoundException
         then (None, Some (NotFoundError (Some e) (DescribeLogStreamsRequest
                   \<lparr>dls_LogGroupName = Some logGroupName, dls_LogStreamNamePrefix = Some name\<rparr>)))
         else (None, Some e))"
    if "fetches = map Inr pages @ Inl e # rest"
    using that assms(1) skip [of "Inl e" rest]
    by (simp add: FindLogStreamByTwoPartKey_def ErrCodeEquals_def)
  show ?thesis using found exhausted failed by simp
qed

theorem FindLogStreamByTwoPartKey_scan_witness:
  "FindLogStreamByTwoPartKey
     \<lparr>CreateLogStream = \<lambda>i. None,
      DescribeLogStreams = \<lambda>i.
        [Inr (Some \<lparr>LogStreams = [\<lparr>Arn = Some ''arn-ab'', LogStreamName = Some ''ab''\<rparr>]\<rparr>),
         Inr None,
         Inr (Some \<lparr>LogStreams = [\<lparr>Arn = Some ''arn-abc'', LogStreamName = Some ''abc''\<rparr>,
                                  \<lparr>Arn = Some ''arn-1'', LogStreamName = Some ''a''\<rparr>,
                                  \<lparr>Arn = Some ''arn-2'', LogStreamName = Some ''a''\<rparr>]\<rparr>),
         Inl (OtherError ''connection reset'')],
      DeleteLogStream = \<lambda>i. None\<rparr> ''g'' ''a''
   = (Some \<lparr>Arn = Some ''arn-1'', LogStreamName = Some ''a''\<rparr>, None)
   \<and> FindLogStreamByTwoPartKey
     \<lparr>CreateLogStream = \<lambda>i. None,
      DescribeLogStreams = \<lambda>i.
        [Inr (Some \<lparr>LogStreams = [\<lparr>Arn = Some ''arn-ab'', LogStreamName = Some ''ab''\<rparr>]\<rparr>),
         Inr None],
      DeleteLogStream = \<lambda>i. None\<rparr> ''g'' ''a''
   = (None, Some (EmptyResultError (DescribeLogStreamsRequest
        \<lparr>dls_LogGroupName = Some ''g'', dls_LogStreamNamePrefix = Some ''a''\<rparr>)))
   \<and> FindLogStreamByTwoPartKey
     \<lparr>CreateLogStream = \<lambda>i. None,
      DescribeLogStreams = \<lambda>i.
        [Inr (Some \<lparr>LogStreams = [\<lparr>Arn = Some ''arn-ab'', LogStreamName = Some ''ab''\<rparr>]\<rparr>),
         Inl (AWSError ''ResourceNotFoundException'' ''no such group'')],
      DeleteLogStream = \<lambda>i. None\<rparr> ''g'' ''a''
   = (None, Some (NotFoundError (Some (AWSError ''ResourceNotFoundException'' ''no such group''))
        (DescribeLogStreamsRequest
          \<lparr>dls_LogGroupName = Some ''g'', dls_LogStreamNamePrefix = Some ''a''\<rparr>)))
   \<and> FindLogStreamByTwoPartKey
     \<lparr>CreateLogStream = \<lambda>i. None,
      DescribeLogStreams = \<lambda>i. [Inl (AWSError ''ThrottlingException'' ''slow down'')],
      DeleteLogStream = \<lambda>i. None\<rparr> ''g'' ''a''
   = (None, Some (AWSError ''ThrottlingException'' ''slow down''))"
proof -
  let ?ab = "Some \<lparr>LogStreams = [\<lparr>Arn = Some ''arn-ab'', LogStreamName = Some ''ab''\<rparr>]\<rparr>"
  let ?pg = "\<lparr>LogStreams = [\<lparr>Arn = Some ''arn-abc'', LogStreamName = Some ''abc''\<rparr>,
                                  \<lparr>Arn = Some ''arn-1'', LogStreamName = Some ''a''\<rparr>,
                                  \<lparr>Arn = Some ''arn-2'', LogStreamName = Some ''a''\<rparr>]\<rparr>"
  have nomatch: "find (\<lambda>v. StringValue (LogStreamName v) = ''a'') (concat (map streams_of [?ab, None])) = None"
    "find (\<lambda>v. StringValue (LogStreamName v) = ''a'') (concat (map streams_of [?ab])) = None"
    "find (\<lambda>v. StringValue (LogStreamName v) = ''a'') (concat (map streams_of [])) = None"
    by (simp_all add: streams_of_def StringValue_def)
  have m: "find (\<lambda>v. StringValue (LogStreamName v) = ''a'') (LogStreams ?pg)
     = Some \<lparr>Arn = Some ''arn-1'', LogStreamName = Some ''a''\<rparr>"
    by (simp add: StringValue_def)
  show ?thesis
    using FindLogStreamByTwoPartKey_scan [OF refl nomatch(1),
        where conn = "\<lparr>CreateLogStream = \<lambda>i. None,
      DescribeLogStreams = \<lambda>i. [Inr ?ab, Inr None, Inr (Some ?pg), Inl (OtherError ''connection reset'')],
      DeleteLogStream = \<lambda>i. None\<rparr>" and logGroupName = "''g''" and page = ?pg
        and rest = "[Inl (OtherError ''connection reset'')]"
        and v = "\<lparr>Arn = Some ''arn-1'', LogStreamName = Some ''a''\<rparr>"]
      FindLogStreamByTwoPartKey_scan [OF refl nomatch(1),
        where conn = "\<lparr>CreateLogStream = \<lambda>i. None,
      DescribeLogStreams = \<lambda>i. [Inr ?ab, Inr None],
      DeleteLogStream = \<lambda>i. None\<rparr>" and logGroupName = "''g''"]
      FindLogStreamByTwoPartKey_scan [OF refl nomatch(2),
        where conn = "\<lparr>CreateLogStream = \<lambda>i. None,
      DescribeLogStreams = \<lambda>i. [Inr ?ab, Inl (AWSError ''ResourceNotFoundException'' ''no such group'')],
      DeleteLogStream = \<lambda>i. None\<rparr>" and logGroupName = "''g''"
        and e = "AWSError ''ResourceNotFoundException'' ''no such group''" and rest = "[]"]
      FindLogStreamByTwoPartKey_scan [OF refl nomatch(3),
        where conn = "\<lparr>CreateLogStream = \<lambda>i. None,
      DescribeLogStreams = \<lambda>i. [Inl (AWSError ''ThrottlingException'' ''slow down'')],
      DeleteLogStream = \<lambda>i. None\<rparr>" and logGroupName = "''g''"
        and e = "AWSError ''ThrottlingException'' ''slow down''" and rest = "[]"]
      m
    by (simp add: ErrCodeResourceNotFoundException_def)
qed

text \<open>
  C10. \<open>FindLogStreamByTwoPartKey\<close> never returns a nil stream together with a nil error:
  of the stream and the error, exactly one is nil. A nil page changes nothing, wherever
  it stands in the listing: the result is that of the listing without it (so a nil page
  in the middle does not end the scan, and a nil last page ends it as the last page
  would).
\<close>

theorem FindLogStreamByTwoPartKey_never_nil_nil:
  "FindLogStreamByTwoPartKey conn logGroupName name \<noteq> (None, None)
   \<and> (fst (FindLogStreamByTwoPartKey conn logGroupName name) = None)
       = (snd (FindLogStreamByTwoPartKey conn logGroupName name) \<noteq> None)
   \<and> FindLogStreamByTwoPartKey (conn\<lparr>DescribeLogStreams := \<lambda>input. pre @ Inr None # rest\<rparr>)
        logGroupName name
     = FindLogStreamByTwoPartKey (conn\<lparr>DescribeLogStreams := \<lambda>input. pre @ rest\<rparr>)
        logGroupName name"
proof -
  have "FindLogStreamByTwoPartKey conn logGroupName name \<noteq> (None, None)"
    by (simp add: FindLogStreamByTwoPartKey_def Let_def split: prod.splits)
  moreover have "(fst (FindLogStreamByTwoPartKey conn logGroupName name) = None)
       = (snd (FindLogStreamByTwoPartKey conn logGroupName name) \<noteq> None)"
    by (auto simp: FindLogStreamByTwoPartKey_def Let_def split: prod.splits)
  moreover have "FindLogStreamByTwoPartKey (conn\<lparr>DescribeLogStreams := \<lambda>input. pre @ Inr None # rest\<rparr>)
        logGroupName name
     = FindLogStreamByTwoPartKey (conn\<lparr>DescribeLogStreams := \<lambda>input. pre @ rest\<rparr>)
        logGroupName name"
    by (simp add: FindLogStreamByTwoPartKey_def nil_page_skipped)
  ultimately show ?thesis by blast
qed

subsection \<open>The name validator\<close>

text \<open>
  C8. \<open>validStreamName\<close> returns at least one error exactly when the value holds a colon
  or its length is outside 1..512. So it accepts a name without a colon of length 1 or
  512 (with no warning either), and rejects the empty name and every name of length 513.
\<close>

theorem validStreamName_errors:
  "(snd (validStreamName v k) \<noteq> []) = (CHR '':'' \<in> set v \<or> length v < 1 \<or> 512 < length v)
   \<and> (CHR '':'' \<notin> set v \<and> (length v = 1 \<or> length v = 512) \<longrightarrow> validStreamName v k = ([], []))
   \<and> snd (validStreamName [] k) \<noteq> []
   \<and> (length v = 513 \<longrightarrow> snd (validStreamName v k) \<noteq> [])"
  by (auto simp: validStreamName_def)

theorem validStreamName_errors_witness:
  "validStreamName ''s'' ''name'' = ([], [])
   \<and> validStreamName (replicate 512 (CHR ''s'')) ''name'' = ([], [])
   \<and> snd (validStreamName (replicate 513 (CHR ''s'')) ''name'') \<noteq> []
   \<and> snd (validStreamName ''a:b'' ''name'') \<noteq> []"
  using validStreamName_errors [of "''s''" "''name''"]
    validStreamName_errors [of "replicate 512 (CHR ''s'')" "''name''"]
    validStreamName_errors [of "replicate 513 (CHR ''s'')" "''name''"]
    validStreamName_errors [of "''a:b''" "''name''"]
  by simp

section \<open>Verification: the user pool client resource\<close>

subsection \<open>Diagnostics and conversions\<close>

lemma set_Append: "set (Append diags ds) = set diags \<union> set ds"
  by (induction ds arbitrary: diags) auto

lemma HasError_iff: "HasError ds = (\<exists>s d. ErrorDiagnostic s d \<in> set ds)"
  by (induction ds rule: HasError.induct) auto

lemma HasError_Append: "HasError (Append diags ds) = (HasError diags \<or> HasError ds)"
  by (auto simp: HasError_iff set_Append)

lemma HasError_AddError: "HasError (AddError diags s d)"
  by (auto simp: AddError_def HasError_iff)

lemma StringFromFramework_ToFramework: "StringFromFramework (StringToFramework p) = p"
  by (simp add: StringFromFramework_def StringToFramework_def split: option.splits)

subsection \<open>The nested blocks\<close>

text \<open>
  C7. \<open>expandAnaylticsConfiguration\<close> and \<open>expandTokenValidityUnits\<close> return a struct
  exactly when the list is known and has exactly one element, nil for the null list and
  for the empty list, and in the one-element case the struct whose fields are the
  conversions of the fields of that element. Both functions write to the diagnostics of
  the handler and return nil once these hold an error; the statement is about a call
  that is given diagnostics without an error, as the handlers give them to \<open>createInput\<close>
  and \<open>updateInput\<close>. (An unknown list has no elements to convert: it leaves an error
  and the result is nil.)
\<close>

theorem expand_singleton:
  assumes "\<not> HasError diags"
  shows "(fst (expandAnaylticsConfiguration l diags) \<noteq> None) = (\<exists>a. l = Known [a])
    \<and> fst (expandAnaylticsConfiguration Null diags) = None
    \<and> fst (expandAnaylticsConfiguration (Known []) diags) = None
    \<and> expandAnaylticsConfiguration (Known [a]) diags
        = (Some \<lparr>act_ApplicationArn = ARNStringFromFramework (ApplicationARN a),
                 act_ApplicationId = StringFromFramework (ApplicationID a),
                 act_ExternalId = StringFromFramework (ExternalID a),
                 act_RoleArn = ARNStringFromFramework (RoleARN a),
                 act_UserDataShared = BoolFromFramework (UserDataShared a)\<rparr>, diags)
    \<and> (fst (expandTokenValidityUnits m diags) \<noteq> None) = (\<exists>u. m = Known [u])
    \<and> fst (expandTokenValidityUnits Null diags) = None
    \<and> fst (expandTokenValidityUnits (Known []) diags) = None
    \<and> expandTokenValidityUnits (Known [u]) diags
        = (Some \<lparr>tvut_AccessToken = StringFromFramework (AccessToken u),
                 tvut_IdToken = StringFromFramework (IdToken u),
                 tvut_RefreshToken = StringFromFramework (RefreshToken u)\<rparr>, diags)"
proof -
  have a: "(fst (expandAnaylticsConfiguration l diags) \<noteq> None) = (\<exists>a. l = Known [a])"
  proof (cases l)
    case (Known xs)
    then show ?thesis using assms
      by (cases xs rule: list.exhaust; cases "tl xs")
        (auto simp: expandAnaylticsConfiguration_def ElementsAs_def analyticsConfiguration_expand_def)
  qed (use assms in \<open>auto simp: expandAnaylticsConfiguration_def ElementsAs_def HasError_Append\<close>)
  have t: "(fst (expandTokenValidityUnits m diags) \<noteq> None) = (\<exists>u. m = Known [u])"
  proof (cases m)
    case (Known xs)
    then show ?thesis using assms
      by (cases xs rule: list.exhaust; cases "tl xs")
        (auto simp: expandTokenValidityUnits_def ElementsAs_def tokenValidityUnits_expand_def)
  qed (use assms in \<open>auto simp: expandTokenValidityUnits_def ElementsAs_def HasError_Append\<close>)
  show ?thesis using assms a t
    by (simp add: expandAnaylticsConfiguration_def expandTokenValidityUnits_def ElementsAs_def
        analyticsConfiguration_expand_def tokenValidityUnits_expand_def)
qed

theorem expand_singleton_witness:
  "expandTokenValidityUnits
      (Known [\<lparr>AccessToken = Known ''hours'', IdToken = Null, RefreshToken = Known ''days''\<rparr>])
      [WarningDiagnostic ''w'' (Text ''t'')]
    = (Some \<lparr>tvut_AccessToken = Some ''hours'', tvut_IdToken = None, tvut_RefreshToken = Some ''days''\<rparr>,
       [WarningDiagnostic ''w'' (Text ''t'')])
   \<and> fst (expandTokenValidityUnits
      (Known [\<lparr>AccessToken = Known ''hours'', IdToken = Null, RefreshToken = Known ''days''\<rparr>,
              \<lparr>AccessToken = Known ''hours'', IdToken = Null, RefreshToken = Known ''days''\<rparr>])
      [WarningDiagnostic ''w'' (Text ''t'')]) = None
   \<and> fst (expandAnaylticsConfiguration Null [WarningDiagnostic ''w'' (Text ''t'')]) = None
   \<and> fst (expandAnaylticsConfiguration
      (Known [\<lparr>ApplicationARN = Null, ApplicationID = Known ''app'', ExternalID = Known ''ext'',
               RoleARN = Known \<lparr>Partition = ''aws'', Service = ''iam'', Region = [],
                 AccountID = ''123456789012'', Resource = ''role/r''\<rparr>,
               UserDataShared = Known True\<rparr>])
      [WarningDiagnostic ''w'' (Text ''t'')])
     = Some \<lparr>act_ApplicationArn = None, act_ApplicationId = Some ''app'',
             act_ExternalId = Some ''ext'',
             act_RoleArn = Some ''arn:aws:iam::123456789012:role/r'',
             act_UserDataShared = Some True\<rparr>"
proof -
  have h: "\<not> HasError [WarningDiagnostic ''w'' (Text ''t'')]" by simp
  let ?u = "\<lparr>AccessToken = Known ''hours'', IdToken = Null, RefreshToken = Known ''days''\<rparr>"
  show ?thesis
    using expand_singleton [OF h, where u = ?u and m = "Known [?u, ?u]"
        and a = "\<lparr>ApplicationARN = Null, ApplicationID = Known ''app'', ExternalID = Known ''ext'',
               RoleARN = Known \<lparr>Partition = ''aws'', Service = ''iam'', Region = [],
                 AccountID = ''123456789012'', Resource = ''role/r''\<rparr>,
               UserDataShared = Known True\<rparr>"]
    by (simp add: StringFromFramework_def ARNStringFromFramework_def BoolFromFramework_def arn_String_def)
qed

text \<open>
  C9. \<open>flattenTokenValidityUnits\<close> returns the null list exactly when its argument is
  nil or has its three fields nil. Otherwise it returns a list of one element, and
  \<open>expandTokenValidityUnits\<close> of that list (given diagnostics without an error, which it
  leaves as they are) is the argument again. So a struct whose three fields are nil does
  not come back: it flattens to the null list, which expands to nil.
\<close>

theorem flatten_expand_TokenValidityUnits:
  "(flattenTokenValidityUnits tvu = Null)
     = (tvu = None \<or> (\<exists>u. tvu = Some u \<and> tvut_AccessToken u = None \<and> tvut_IdToken u = None
                         \<and> tvut_RefreshToken u = None))
   \<and> (flattenTokenValidityUnits tvu \<noteq> Null \<longrightarrow>
        (\<exists>x. flattenTokenValidityUnits tvu = Known [x])
        \<and> (\<not> HasError diags \<longrightarrow>
             expandTokenValidityUnits (flattenTokenValidityUnits tvu) diags = (tvu, diags)))
   \<and> (tvut_AccessToken u = None \<and> tvut_IdToken u = None \<and> tvut_RefreshToken u = None \<longrightarrow>
        flattenTokenValidityUnits (Some u) = Null
        \<and> expandTokenValidityUnits (flattenTokenValidityUnits (Some u)) diags
            = (None, diags))"
  by (cases tvu)
    (auto simp: flattenTokenValidityUnits_def expandTokenValidityUnits_def ElementsAs_def
      tokenValidityUnits_expand_def StringFromFramework_ToFramework)

theorem flatten_expand_TokenValidityUnits_witness:
  "expandTokenValidityUnits
     (flattenTokenValidityUnits
        (Some \<lparr>tvut_AccessToken = Some ''minutes'', tvut_IdToken = None,
               tvut_RefreshToken = Some ''days''\<rparr>)) []
    = (Some \<lparr>tvut_AccessToken = Some ''minutes'', tvut_IdToken = None,
               tvut_RefreshToken = Some ''days''\<rparr>, [])
   \<and> flattenTokenValidityUnits
        (Some \<lparr>tvut_AccessToken = Some ''minutes'', tvut_IdToken = None,
               tvut_RefreshToken = Some ''days''\<rparr>)
      = Known [\<lparr>AccessToken = Known ''minutes'', IdToken = Null, RefreshToken = Known ''days''\<rparr>]
   \<and> flattenTokenValidityUnits
        (Some \<lparr>tvut_AccessToken = None, tvut_IdToken = None, tvut_RefreshToken = None\<rparr>) = Null
   \<and> expandTokenValidityUnits (flattenTokenValidityUnits
        (Some \<lparr>tvut_AccessToken = None, tvut_IdToken = None, tvut_RefreshToken = None\<rparr>)) []
      = (None, [])"
  using flatten_expand_TokenValidityUnits [of
      "Some \<lparr>tvut_AccessToken = Some ''minutes'', tvut_IdToken = None,
               tvut_RefreshToken = Some ''days''\<rparr>" "[]"
      "\<lparr>tvut_AccessToken = None, tvut_IdToken = None, tvut_RefreshToken = None\<rparr>"]
  by (simp add: flattenTokenValidityUnits_def StringToFramework_def)

subsection \<open>Delete and Read of a resource that is gone\<close>

text \<open>
  C6. Delete is idempotent in both handlers. When the remote delete call fails with the
  code \<open>ResourceNotFoundException\<close>, \<open>resourceStreamDelete\<close> returns no error and
  \<open>Delete\<close> adds no diagnostic; when it fails in any other way,
  \<open>resourceStreamDelete\<close> returns the failure, wrapped, and \<open>Delete\<close> adds it as an error
  diagnostic. (\<open>Delete\<close> makes the remote call once it has decoded the state without an
  error.)
\<close>

theorem Delete_not_found_is_success:
  "(DeleteLogStream lconn \<lparr>dels_LogGroupName = Some (Get d ''log_group_name''),
                            dels_LogStreamName = Some (Id' d)\<rparr> = Some e
      \<and> error_code_is e ErrCodeResourceNotFoundException
      \<longrightarrow> resourceStreamDelete d lconn = None)
   \<and> (DeleteLogStream lconn \<lparr>dels_LogGroupName = Some (Get d ''log_group_name''),
                            dels_LogStreamName = Some (Id' d)\<rparr> = Some e
      \<and> \<not> error_code_is e ErrCodeResourceNotFoundException
      \<longrightarrow> resourceStreamDelete d lconn = Some (Wrapped ''deleting'' (Id' d) e))
   \<and> (\<not> HasError (Append (Diagnostics response) ds)
      \<and> DeleteUserPoolClient conn (deleteInput state) = Some e
      \<and> error_code_is e ErrCodeResourceNotFoundException
      \<longrightarrow> Delete conn \<lparr>dreq_State = (ds, state)\<rparr> response
          = response\<lparr>Diagnostics := Append (Diagnostics response) ds\<rparr>
        \<and> \<not> HasError (Diagnostics (Delete conn \<lparr>dreq_State = (ds, state)\<rparr> response)))
   \<and> (\<not> HasError (Append (Diagnostics response) ds)
      \<and> DeleteUserPoolClient conn (deleteInput state) = Some e
      \<and> \<not> error_code_is e ErrCodeResourceNotFoundException
      \<longrightarrow> Delete conn \<lparr>dreq_State = (ds, state)\<rparr> response
          = response\<lparr>Diagnostics :=
              AddError (Append (Diagnostics response) ds)
                (''deleting Cognito User Pool Client ('' @ ValueString (ID state) @ '')'')
                (ErrorText e)\<rparr>
        \<and> HasError (Diagnostics (Delete conn \<lparr>dreq_State = (ds, state)\<rparr> response)))"
  by (simp add: resourceStreamDelete_def Delete_def ErrCodeEquals_def Let_def HasError_AddError)

theorem Delete_not_found_is_success_witness:
  "resourceStreamDelete
     \<lparr>Id' = ''s'', attrs = [''log_group_name'' \<mapsto> ''g''], IsNewResource = False\<rparr>
     \<lparr>CreateLogStream = \<lambda>i. None, DescribeLogStreams = \<lambda>i. [],
      DeleteLogStream = \<lambda>i. Some (AWSError ''ResourceNotFoundException'' ''gone'')\<rparr> = None
   \<and> resourceStreamDelete
     \<lparr>Id' = ''s'', attrs = [''log_group_name'' \<mapsto> ''g''], IsNewResource = False\<rparr>
     \<lparr>CreateLogStream = \<lambda>i. None, DescribeLogStreams = \<lambda>i. [],
      DeleteLogStream = \<lambda>i. Some (AWSError ''AccessDeniedException'' ''no'')\<rparr>
     = Some (Wrapped ''deleting'' ''s'' (AWSError ''AccessDeniedException'' ''no''))
   \<and> Delete
      \<lparr>CreateUserPoolClient = \<lambda>i. Inl (OtherError ''not called''),
       DescribeUserPoolClient = \<lambda>i. Inl (OtherError ''not called''),
       UpdateUserPoolClient = \<lambda>k i. (0, Inl (OtherError ''not called'')),
       DeleteUserPoolClient = \<lambda>i. Some (AWSError ''ResourceNotFoundException'' ''gone'')\<rparr>
      \<lparr>dreq_State = ([], zero_data)\<rparr> \<lparr>Diagnostics = [], State = Some zero_data\<rparr>
     = \<lparr>Diagnostics = [], State = Some zero_data\<rparr>
   \<and> Delete
      \<lparr>CreateUserPoolClient = \<lambda>i. Inl (OtherError ''not called''),
       DescribeUserPoolClient = \<lambda>i. Inl (OtherError ''not called''),
       UpdateUserPoolClient = \<lambda>k i. (0, Inl (OtherError ''not called'')),
       DeleteUserPoolClient = \<lambda>i. Some (AWSError ''AccessDeniedException'' ''no'')\<rparr>
      \<lparr>dreq_State = ([], zero_data)\<rparr> \<lparr>Diagnostics = [], State = Some zero_data\<rparr>
     = \<lparr>Diagnostics =
         [ErrorDiagnostic ''deleting Cognito User Pool Client ()''
            (ErrorText (AWSError ''AccessDeniedException'' ''no''))],
        State = Some zero_data\<rparr>"
proof -
  let ?d = "\<lparr>Id' = ''s'', attrs = [''log_group_name'' \<mapsto> ''g''], IsNewResource = False\<rparr>"
  let ?l = "\<lambda>e. \<lparr>CreateLogStream = \<lambda>i. None, DescribeLogStreams = \<lambda>i. [],
      DeleteLogStream = \<lambda>i. Some e\<rparr>"
  let ?c = "\<lambda>e. \<lparr>CreateUserPoolClient = \<lambda>i. Inl (OtherError ''not called''),
       DescribeUserPoolClient = \<lambda>i. Inl (OtherError ''not called''),
       UpdateUserPoolClient = \<lambda>k i. (0, Inl (OtherError ''not called'')),
       DeleteUserPoolClient = \<lambda>i. Some e\<rparr>"
  let ?gone = "AWSError ''ResourceNotFoundException'' ''gone''"
  let ?no = "AWSError ''AccessDeniedException'' ''no''"
  show ?thesis
    using Delete_not_found_is_success [where d = ?d and lconn = "?l ?gone" and e = ?gone
        and conn = "?c ?gone" and response = "\<lparr>Diagnostics = [], State = Some zero_data\<rparr>"
        and ds = "[]" and state = zero_data]
      Delete_not_found_is_success [where d = ?d and lconn = "?l ?no" and e = ?no
        and conn = "?c ?no" and response = "\<lparr>Diagnostics = [], State = Some zero_data\<rparr>"
        and ds = "[]" and state = zero_data]
    by (simp add: ErrCodeResourceNotFoundException_def AddError_def ValueString_def zero_data_def)
qed

text \<open>
  C5, as amended. When the lookup of the remote object reports "not found":
  \<^item> \<open>Read\<close> of the user pool client removes the state and adds no diagnostic;
  \<^item> \<open>resourceStreamRead\<close> of a resource that is not being created empties the id and
    returns no error;
  \<^item> \<open>resourceStreamRead\<close> of a resource that is being created (\<open>IsNewResource\<close>, as
    in the Read that ends Create) returns the error, wrapped, and leaves the resource as
    it is.
  The claim as stated, for every resource, fails on the third case; the example after
  the theorem is a listing without the stream, read while the resource is being created.
\<close>

theorem Read_not_found_removes_state:
  "(\<not> IsNewResource d
      \<and> NotFound (snd (FindLogStreamByTwoPartKey lconn (Get d ''log_group_name'') (Id' d)))
      \<longrightarrow> resourceStreamRead d lconn = Return (d\<lparr>Id' := []\<rparr>, None))
   \<and> (IsNewResource d
      \<and> snd (FindLogStreamByTwoPartKey lconn (Get d ''log_group_name'') (Id' d)) = Some e
      \<longrightarrow> resourceStreamRead d lconn = Return (d, Some (Wrapped ''reading'' (Id' d) e)))
   \<and> (\<not> HasError (Append (Diagnostics response) ds)
      \<and> NotFound (snd (FindCognitoUserPoolClientByID conn (ValueString (UserPoolID state))
                        (ValueString (ID state))))
      \<longrightarrow> Read conn \<lparr>rreq_State = (ds, state)\<rparr> response
          = Return (response\<lparr>Diagnostics := Append (Diagnostics response) ds, State := None\<rparr>))"
  by (auto simp: resourceStreamRead_def Read_def SetId_def Let_def split: prod.splits)

theorem Read_not_found_removes_state_witness:
  "resourceStreamRead
     \<lparr>Id' = ''s'', attrs = [''log_group_name'' \<mapsto> ''g'', ''name'' \<mapsto> ''s''], IsNewResource = False\<rparr>
     \<lparr>CreateLogStream = \<lambda>i. None,
      DescribeLogStreams = \<lambda>i. [Inr (Some \<lparr>LogStreams = []\<rparr>)],
      DeleteLogStream = \<lambda>i. None\<rparr>
   = Return
       (\<lparr>Id' = [], attrs = [''log_group_name'' \<mapsto> ''g'', ''name'' \<mapsto> ''s''], IsNewResource = False\<rparr>,
        None)
   \<and> Read \<lparr>CreateUserPoolClient = \<lambda>i. Inl (OtherError ''unused''),
            DescribeUserPoolClient = \<lambda>i. Inl (AWSError ''ResourceNotFoundException'' ''gone''),
            UpdateUserPoolClient = \<lambda>k i. (0, Inl (OtherError ''unused'')),
            DeleteUserPoolClient = \<lambda>i. None\<rparr>
        \<lparr>rreq_State = ([], zero_data)\<rparr> \<lparr>Diagnostics = [], State = Some zero_data\<rparr>
     = Return \<lparr>Diagnostics = [], State = None\<rparr>"
  using Read_not_found_removes_state [where
      d = "\<lparr>Id' = ''s'', attrs = [''log_group_name'' \<mapsto> ''g'', ''name'' \<mapsto> ''s''], IsNewResource = False\<rparr>"
      and lconn = "\<lparr>CreateLogStream = \<lambda>i. None,
      DescribeLogStreams = \<lambda>i. [Inr (Some \<lparr>LogStreams = []\<rparr>)],
      DeleteLogStream = \<lambda>i. None\<rparr>"
      and response = "\<lparr>Diagnostics = [], State = Some zero_data\<rparr>" and ds = "[]" and state = zero_data
      and conn = "\<lparr>CreateUserPoolClient = \<lambda>i. Inl (OtherError ''unused''),
            DescribeUserPoolClient = \<lambda>i. Inl (AWSError ''ResourceNotFoundException'' ''gone''),
            UpdateUserPoolClient = \<lambda>k i. (0, Inl (OtherError ''unused'')),
            DeleteUserPoolClient = \<lambda>i. None\<rparr>"]
  by (simp add: FindLogStreamByTwoPartKey_def page_callback_def Get_def ErrCodeEquals_def
      NotFound_def FindCognitoUserPoolClientByID_def ErrCodeResourceNotFoundException_def
      ValueString_def zero_data_def)

theorem resourceStreamRead_new_resource_not_found:
  "resourceStreamRead
     \<lparr>Id' = ''s'', attrs = [''log_group_name'' \<mapsto> ''g'', ''name'' \<mapsto> ''s''], IsNewResource = True\<rparr>
     \<lparr>CreateLogStream = \<lambda>i. None,
      DescribeLogStreams = \<lambda>i. [Inr (Some \<lparr>LogStreams = []\<rparr>)],
      DeleteLogStream = \<lambda>i. None\<rparr>
   = Return
       (\<lparr>Id' = ''s'', attrs = [''log_group_name'' \<mapsto> ''g'', ''name'' \<mapsto> ''s''], IsNewResource = True\<rparr>,
        Some (Wrapped ''reading'' ''s''
          (EmptyResultError (DescribeLogStreamsRequest
             \<lparr>dls_LogGroupName = Some ''g'', dls_LogStreamNamePrefix = Some ''s''\<rparr>))))
   \<and> NotFound (snd (FindLogStreamByTwoPartKey
        \<lparr>CreateLogStream = \<lambda>i. None,
         DescribeLogStreams = \<lambda>i. [Inr (Some \<lparr>LogStreams = []\<rparr>)],
         DeleteLogStream = \<lambda>i. None\<rparr> ''g'' ''s''))
   \<and> resourceStreamCreate
     \<lparr>Id' = [], attrs = [''log_group_name'' \<mapsto> ''g'', ''name'' \<mapsto> ''s''], IsNewResource = True\<rparr>
     \<lparr>CreateLogStream = \<lambda>i. None,
      DescribeLogStreams = \<lambda>i. [Inr (Some \<lparr>LogStreams = []\<rparr>)],
      DeleteLogStream = \<lambda>i. None\<rparr>
   = Return
       (\<lparr>Id' = ''s'', attrs = [''log_group_name'' \<mapsto> ''g'', ''name'' \<mapsto> ''s''], IsNewResource = True\<rparr>,
        Some (Wrapped ''reading'' ''s''
          (EmptyResultError (DescribeLogStreamsRequest
             \<lparr>dls_LogGroupName = Some ''g'', dls_LogStreamNamePrefix = Some ''s''\<rparr>))))"
  by (simp add: resourceStreamCreate_def resourceStreamRead_def FindLogStreamByTwoPartKey_def
      page_callback_def Get_def SetId_def ErrCodeEquals_def NotFound_def Let_def)

subsection \<open>The retry helper\<close>

lemma Retry_answer:
  "snd (f k) = Inr out \<Longrightarrow> RetryWhenAWSErrCodeEquals timeout f code k elapsed = (Suc k, Inr out)"
  by (subst RetryWhenAWSErrCodeEquals.simps) simp

lemma Retry_again:
  "snd (f k) = Inl e \<Longrightarrow> error_code_is e code \<Longrightarrow> elapsed + max 1 (fst (f k)) < timeout
   \<Longrightarrow> RetryWhenAWSErrCodeEquals timeout f code k elapsed
       = RetryWhenAWSErrCodeEquals timeout f code (Suc k) (elapsed + max 1 (fst (f k)))"
  by (subst RetryWhenAWSErrCodeEquals.simps) simp

lemma Retry_give_up:
  "snd (f k) = Inl e \<Longrightarrow> \<not> (error_code_is e code \<and> elapsed + max 1 (fst (f k)) < timeout)
   \<Longrightarrow> RetryWhenAWSErrCodeEquals timeout f code k elapsed = (Suc k, Inl e)"
  by (subst RetryWhenAWSErrCodeEquals.simps) auto

lemma Retry_spec:
  assumes "RetryWhenAWSErrCodeEquals timeout f code k elapsed = (n, r)"
  shows "k < n \<and> r = snd (f (n - 1))
     \<and> (\<forall>j. k \<le> j \<and> j < n - 1 \<longrightarrow>
           (\<exists>e. snd (f j) = Inl e \<and> error_code_is e code)
           \<and> elapsed + (\<Sum>i = k..j. max 1 (fst (f i))) < timeout)
     \<and> (\<forall>e. r = Inl e \<and> error_code_is e code \<longrightarrow>
           timeout \<le> elapsed + (\<Sum>i = k..<n. max 1 (fst (f i))))"
  using assms
proof (induction timeout f code k elapsed rule: RetryWhenAWSErrCodeEquals.induct)
  case (1 timeout f code k elapsed)
  show ?case
  proof (cases "snd (f k)")
    case (Inr out)
    from "1.prems" Retry_answer [where f = f and k = k, OF Inr, of timeout code elapsed]
    have "n = Suc k" "r = Inr out" by simp_all
    with Inr show ?thesis by auto
  next
    case (Inl e)
    show ?thesis
    proof (cases "error_code_is e code \<and> elapsed + max 1 (fst (f k)) < timeout")
      case False
      from "1.prems" Retry_give_up [where f = f and k = k, OF Inl False]
      have "n = Suc k" "r = Inl e" by simp_all
      with Inl False show ?thesis by auto
    next
      case True
      let ?el = "elapsed + max 1 (fst (f k))"
      from True Inl "1.prems" Retry_again [of f k e code elapsed timeout]
      have rec: "RetryWhenAWSErrCodeEquals timeout f code (Suc k) ?el = (n, r)" by simp
      note IH = "1.IH" [OF Inl True rec]
      from IH have n: "Suc k < n" and last: "r = snd (f (n - 1))" by simp_all
      have mid: "(\<exists>e. snd (f j) = Inl e \<and> error_code_is e code)
           \<and> elapsed + (\<Sum>i = k..j. max 1 (fst (f i))) < timeout"
        if "k \<le> j" "j < n - 1" for j
      proof (cases "j = k")
        case True
        with Inl \<open>error_code_is e code \<and> ?el < timeout\<close> show ?thesis by simp
      next
        case False
        with that have "Suc k \<le> j" by simp
        with IH that have "(\<exists>e. snd (f j) = Inl e \<and> error_code_is e code)"
          and "?el + (\<Sum>i = Suc k..j. max 1 (fst (f i))) < timeout" by simp_all
        moreover from \<open>Suc k \<le> j\<close>
        have "(\<Sum>i = k..j. max 1 (fst (f i))) = max 1 (fst (f k)) + (\<Sum>i = Suc k..j. max 1 (fst (f i)))"
          by (simp add: sum.atLeast_Suc_atMost)
        ultimately show ?thesis by simp
      qed
      have fin: "timeout \<le> elapsed + (\<Sum>i = k..<n. max 1 (fst (f i)))"
        if "r = Inl e'" "error_code_is e' code" for e'
      proof -
        from IH that have "timeout \<le> ?el + (\<Sum>i = Suc k..<n. max 1 (fst (f i)))" by simp
        moreover from n
        have "(\<Sum>i = k..<n. max 1 (fst (f i))) = max 1 (fst (f k)) + (\<Sum>i = Suc k..<n. max 1 (fst (f i)))"
          by (simp add: sum.atLeast_Suc_lessThan)
        ultimately show ?thesis by simp
      qed
      from n last mid fin show ?thesis by auto
    qed
  qed
qed

subsection \<open>The state that Create, Read and Update store\<close>

lemma update_Some:
  "update data (Some pc) diags
   = Return
       (data\<lparr>AccessTokenValidity := Int64ToFrameworkLegacy (upc_AccessTokenValidity pc),
          AllowedOauthFlows := FlattenFrameworkStringSetLegacy (upc_AllowedOAuthFlows pc),
          AllowedOauthFlowsUserPoolClient :=
            BoolToFramework (upc_AllowedOAuthFlowsUserPoolClient pc),
          AllowedOauthScopes := FlattenFrameworkStringSetLegacy (upc_AllowedOAuthScopes pc),
          AnalyticsConfiguration :=
            fst (flattenAnaylticsConfiguration (upc_AnalyticsConfiguration pc) diags),
          AuthSessionValidity := Int64ToFramework (upc_AuthSessionValidity pc),
          CallbackUrls := FlattenFrameworkStringSetLegacy (upc_CallbackURLs pc),
          ClientSecret := StringToFrameworkLegacy (upc_ClientSecret pc),
          DefaultRedirectUri := StringToFrameworkLegacy (upc_DefaultRedirectURI pc),
          EnablePropagateAdditionalUserContextData :=
            BoolToFramework (upc_EnablePropagateAdditionalUserContextData pc),
          EnableTokenRevocation := BoolToFramework (upc_EnableTokenRevocation pc),
          ExplicitAuthFlows := FlattenFrameworkStringSetLegacy (upc_ExplicitAuthFlows pc),
          ID := StringToFramework (upc_ClientId pc),
          IdTokenValidity := Int64ToFrameworkLegacy (upc_IdTokenValidity pc),
          LogoutUrls := FlattenFrameworkStringSetLegacy (upc_LogoutURLs pc),
          Name := StringToFramework (upc_ClientName pc),
          PreventUserExistenceErrors :=
            StringToFrameworkLegacy (upc_PreventUserExistenceErrors pc),
          ReadAttributes := FlattenFrameworkStringSetLegacy (upc_ReadAttributes pc),
          RefreshTokenValidity := Int64ToFramework (upc_RefreshTokenValidity pc),
          SupportedIdentityProviders :=
            FlattenFrameworkStringSetLegacy (upc_SupportedIdentityProviders pc),
          TokenValidityUnits := flattenTokenValidityUnits (upc_TokenValidityUnits pc),
          UserPoolID := StringToFramework (upc_UserPoolId pc),
          WriteAttributes := FlattenFrameworkStringSetLegacy (upc_WriteAttributes pc)\<rparr>,
        snd (flattenAnaylticsConfiguration (upc_AnalyticsConfiguration pc) diags))"
  by (simp add: update_def split: prod.splits)

lemma update_and_set_changes:
  assumes "update_and_set data poolClient response = Return response'"
    and "State response' \<noteq> State response"
  shows "\<exists>pc r. poolClient = Some pc
           \<and> update data (Some pc) (Diagnostics response) = Return (r, Diagnostics response')
           \<and> State response' = Some r"
proof (cases poolClient)
  case None
  with assms(1) show ?thesis by (simp add: update_and_set_def update_def)
next
  case (Some pc)
  obtain r ds where u: "update data (Some pc) (Diagnostics response) = Return (r, ds)"
    by (simp add: update_Some)
  with assms Some show ?thesis
    by (auto simp: update_and_set_def Let_def split: if_splits)
qed

lemma Create_cases:
  assumes "Create conn \<lparr>creq_Config = (cds, config), creq_Plan = (pds, plan)\<rparr> response
           = Return response'"
    and "State response' \<noteq> State response"
  shows "\<exists>poolClient.
           CreateUserPoolClient conn
             (fst (createInput plan (Append (Append (Diagnostics response) cds) pds)))
           = Inr poolClient
           \<and> update_and_set config poolClient
               (response\<lparr>Diagnostics :=
                  snd (createInput plan (Append (Append (Diagnostics response) cds) pds))\<rparr>)
             = Return response'"
proof -
  let ?d2 = "Append (Append (Diagnostics response) cds) pds"
  obtain params d3 where u: "createInput plan ?d2 = (params, d3)" by (cases "createInput plan ?d2")
  from assms u
  have "\<exists>pc. CreateUserPoolClient conn params = Inr pc
          \<and> update_and_set config pc (response\<lparr>Diagnostics := d3\<rparr>) = Return response'"
    by (auto simp: Create_def Let_def split: if_splits sum.splits)
  with u show ?thesis by simp
qed

lemma Read_cases:
  assumes "Read conn \<lparr>rreq_State = (sds, state)\<rparr> response = Return response'"
    and "State response' \<noteq> State response"
  shows "State response' = None
         \<or> (\<exists>pc.
           DescribeUserPoolClient conn
             \<lparr>dupc_ClientId = Some (ValueString (ID state)),
              dupc_UserPoolId = Some (ValueString (UserPoolID state))\<rparr> = Inr (Some pc)
           \<and> update_and_set state (Some pc)
               (response\<lparr>Diagnostics := Append (Diagnostics response) sds\<rparr>)
             = Return response')"
  using assms
  by (auto simp: Read_def Let_def FindCognitoUserPoolClientByID_def NotFound_def
      split: if_splits sum.splits option.splits)

lemma Update_cases:
  assumes "Update conn \<lparr>ureq_Config = (cds, config), ureq_Plan = (pds, plan)\<rparr> response
           = Return response'"
    and "State response' \<noteq> State response"
  shows "\<exists>poolClient.
           snd (RetryWhenAWSErrCodeEquals (2 * time_Minute)
                  (\<lambda>k. UpdateUserPoolClient conn k
                     (fst (updateInput plan (Append (Append (Diagnostics response) cds) pds))))
                  ErrCodeConcurrentModificationException 0 0) = Inr poolClient
           \<and> snd (UpdateUserPoolClient conn
                  (fst (RetryWhenAWSErrCodeEquals (2 * time_Minute)
                     (\<lambda>k. UpdateUserPoolClient conn k
                        (fst (updateInput plan (Append (Append (Diagnostics response) cds) pds))))
                     ErrCodeConcurrentModificationException 0 0) - 1)
                  (fst (updateInput plan (Append (Append (Diagnostics response) cds) pds))))
             = Inr poolClient
           \<and> update_and_set config poolClient
               (response\<lparr>Diagnostics :=
                  snd (updateInput plan (Append (Append (Diagnostics response) cds) pds))\<rparr>)
             = Return response'"
proof -
  let ?d2 = "Append (Append (Diagnostics response) cds) pds"
  obtain params d3 where u: "updateInput plan ?d2 = (params, d3)" by (cases "updateInput plan ?d2")
  obtain n r where rt: "RetryWhenAWSErrCodeEquals (2 * time_Minute)
      (\<lambda>k. UpdateUserPoolClient conn k params) ErrCodeConcurrentModificationException 0 0 = (n, r)"
    by (cases "RetryWhenAWSErrCodeEquals (2 * time_Minute)
      (\<lambda>k. UpdateUserPoolClient conn k params) ErrCodeConcurrentModificationException 0 0")
  from Retry_spec [OF rt] have last: "r = snd (UpdateUserPoolClient conn (n - 1) params)"
    by simp
  from assms u rt
  have "\<exists>pc. r = Inr pc
          \<and> update_and_set config pc (response\<lparr>Diagnostics := d3\<rparr>) = Return response'"
    by (auto simp: Update_def Let_def split: if_splits sum.splits)
  with u rt last show ?thesis by auto
qed

lemma update_zero_client:
  "\<exists>r. update data (Some (zero_client\<lparr>upc_ClientId := Some ''client-1''\<rparr>)) [] = Return (r, [])
       \<and> ID r = Known ''client-1'' \<and> GenerateSecret r = GenerateSecret data"
  by (simp add: update_Some zero_client_def flattenAnaylticsConfiguration_def StringToFramework_def)

lemma createInput_zero_data: "snd (createInput (zero_data\<lparr>GenerateSecret := g\<rparr>) []) = []"
  by (simp add: createInput_def zero_data_def expandAnaylticsConfiguration_def
      expandTokenValidityUnits_def ElementsAs_def split: prod.splits)

lemma updateInput_zero_data: "snd (updateInput (zero_data\<lparr>GenerateSecret := g\<rparr>) []) = []"
  by (simp add: updateInput_def zero_data_def expandAnaylticsConfiguration_def
      expandTokenValidityUnits_def ElementsAs_def split: prod.splits)

text \<open>
  C3, as amended. \<open>update\<close> assigns 23 of the 24 fields of the resource data, each the
  conversion of the corresponding field of the client in the response (the id from
  \<open>ClientId\<close>); the result of these 23 does not depend on the data before. The 24th,
  \<open>GenerateSecret\<close>, is not a field of the remote client: it keeps the value it has in
  the config (Create, Update) or in the prior state (Read). Whenever Create, Read or
  Update returns with another state than it was given, that state is the result of
  \<open>update\<close>, from the config (Create, Update) or the prior state (Read) and the
  diagnostics the handler holds at that point, on the client that the handler's own remote
  call returned: the create call with \<open>createInput\<close> of the plan, the describe call with
  the two ids of the state, the last update call that the retry helper made with
  \<open>updateInput\<close> of the plan. Read may also leave no state at all.
  The claim as stated, with all 24 fields copied from the response, fails on
  \<open>GenerateSecret\<close>; the example after the theorem runs \<open>update\<close> twice on one
  response and gets the two values the data had before.
\<close>

theorem update_copies_response:
  "(\<exists>r ds. update data (Some pc) diags = Return (r, ds)
      \<and> update data' (Some pc) diags = Return (r\<lparr>GenerateSecret := GenerateSecret data'\<rparr>, ds)
      \<and> GenerateSecret r = GenerateSecret data
      \<and> AccessTokenValidity r = Int64ToFrameworkLegacy (upc_AccessTokenValidity pc)
      \<and> AllowedOauthFlows r = FlattenFrameworkStringSetLegacy (upc_AllowedOAuthFlows pc)
      \<and> AllowedOauthFlowsUserPoolClient r = BoolToFramework (upc_AllowedOAuthFlowsUserPoolClient pc)
      \<and> AllowedOauthScopes r = FlattenFrameworkStringSetLegacy (upc_AllowedOAuthScopes pc)
      \<and> (AnalyticsConfiguration r, ds)
          = flattenAnaylticsConfiguration (upc_AnalyticsConfiguration pc) diags
      \<and> AuthSessionValidity r = Int64ToFramework (upc_AuthSessionValidity pc)
      \<and> CallbackUrls r = FlattenFrameworkStringSetLegacy (upc_CallbackURLs pc)
      \<and> ClientSecret r = StringToFrameworkLegacy (upc_ClientSecret pc)
      \<and> DefaultRedirectUri r = StringToFrameworkLegacy (upc_DefaultRedirectURI pc)
      \<and> EnablePropagateAdditionalUserContextData r
          = BoolToFramework (upc_EnablePropagateAdditionalUserContextData pc)
      \<and> EnableTokenRevocation r = BoolToFramework (upc_EnableTokenRevocation pc)
      \<and> ExplicitAuthFlows r = FlattenFrameworkStringSetLegacy (upc_ExplicitAuthFlows pc)
      \<and> ID r = StringToFramework (upc_ClientId pc)
      \<and> IdTokenValidity r = Int64ToFrameworkLegacy (upc_IdTokenValidity pc)
      \<and> LogoutUrls r = FlattenFrameworkStringSetLegacy (upc_LogoutURLs pc)
      \<and> Name r = StringToFramework (upc_ClientName pc)
      \<and> PreventUserExistenceErrors r = StringToFrameworkLegacy (upc_PreventUserExistenceErrors pc)
      \<and> ReadAttributes r = FlattenFrameworkStringSetLegacy (upc_ReadAttributes pc)
      \<and> RefreshTokenValidity r = Int64ToFramework (upc_RefreshTokenValidity pc)
      \<and> SupportedIdentityProviders r
          = FlattenFrameworkStringSetLegacy (upc_SupportedIdentityProviders pc)
      \<and> TokenValidityUnits r = flattenTokenValidityUnits (upc_TokenValidityUnits pc)
      \<and> UserPoolID r = StringToFramework (upc_UserPoolId pc)
      \<and> WriteAttributes r = FlattenFrameworkStringSetLegacy (upc_WriteAttributes pc))
   \<and> (Create conn \<lparr>creq_Config = (cds, config), creq_Plan = (pds, plan)\<rparr> response
        = Return response' \<and> State response' \<noteq> State response \<longrightarrow>
        (\<exists>c r. CreateUserPoolClient conn
                  (fst (createInput plan (Append (Append (Diagnostics response) cds) pds)))
                = Inr (Some c)
           \<and> update config (Some c)
                (snd (createInput plan (Append (Append (Diagnostics response) cds) pds)))
              = Return (r, Diagnostics response')
           \<and> State response' = Some r))
   \<and> (Read conn \<lparr>rreq_State = (sds, state)\<rparr> response = Return response'
        \<and> State response' \<noteq> State response \<longrightarrow>
        State response' = None
        \<or> (\<exists>c r. DescribeUserPoolClient conn
                    \<lparr>dupc_ClientId = Some (ValueString (ID state)),
                     dupc_UserPoolId = Some (ValueString (UserPoolID state))\<rparr> = Inr (Some c)
           \<and> update state (Some c) (Append (Diagnostics response) sds)
              = Return (r, Diagnostics response')
           \<and> State response' = Some r))
   \<and> (Update conn \<lparr>ureq_Config = (cds, config), ureq_Plan = (pds, plan)\<rparr> response
        = Return response' \<and> State response' \<noteq> State response \<longrightarrow>
        (\<exists>c r. snd (RetryWhenAWSErrCodeEquals (2 * time_Minute)
                      (\<lambda>k. UpdateUserPoolClient conn k
                         (fst (updateInput plan (Append (Append (Diagnostics response) cds) pds))))
                      ErrCodeConcurrentModificationException 0 0) = Inr (Some c)
           \<and> snd (UpdateUserPoolClient conn
                  (fst (RetryWhenAWSErrCodeEquals (2 * time_Minute)
                     (\<lambda>k. UpdateUserPoolClient conn k
                        (fst (updateInput plan (Append (Append (Diagnostics response) cds) pds))))
                     ErrCodeConcurrentModificationException 0 0) - 1)
                  (fst (updateInput plan (Append (Append (Diagnostics response) cds) pds))))
              = Inr (Some c)
           \<and> update config (Some c)
                (snd (updateInput plan (Append (Append (Diagnostics response) cds) pds)))
              = Return (r, Diagnostics response')
           \<and> State response' = Some r))"
proof -
  have m: "\<exists>r ds. update data (Some pc) diags = Return (r, ds)
      \<and> update data' (Some pc) diags = Return (r\<lparr>GenerateSecret := GenerateSecret data'\<rparr>, ds)
      \<and> GenerateSecret r = GenerateSecret data
      \<and> AccessTokenValidity r = Int64ToFrameworkLegacy (upc_AccessTokenValidity pc)
      \<and> AllowedOauthFlows r = FlattenFrameworkStringSetLegacy (upc_AllowedOAuthFlows pc)
      \<and> AllowedOauthFlowsUserPoolClient r = BoolToFramework (upc_AllowedOAuthFlowsUserPoolClient pc)
      \<and> AllowedOauthScopes r = FlattenFrameworkStringSetLegacy (upc_AllowedOAuthScopes pc)
      \<and> (AnalyticsConfiguration r, ds)
          = flattenAnaylticsConfiguration (upc_AnalyticsConfiguration pc) diags
      \<and> AuthSessionValidity r = Int64ToFramework (upc_AuthSessionValidity pc)
      \<and> CallbackUrls r = FlattenFrameworkStringSetLegacy (upc_CallbackURLs pc)
      \<and> ClientSecret r = StringToFrameworkLegacy (upc_ClientSecret pc)
      \<and> DefaultRedirectUri r = StringToFrameworkLegacy (upc_DefaultRedirectURI pc)
      \<and> EnablePropagateAdditionalUserContextData r
          = BoolToFramework (upc_EnablePropagateAdditionalUserContextData pc)
      \<and> EnableTokenRevocation r = BoolToFramework (upc_EnableTokenRevocation pc)
      \<and> ExplicitAuthFlows r = FlattenFrameworkStringSetLegacy (upc_ExplicitAuthFlows pc)
      \<and> ID r = StringToFramework (upc_ClientId pc)
      \<and> IdTokenValidity r = Int64ToFrameworkLegacy (upc_IdTokenValidity pc)
      \<and> LogoutUrls r = FlattenFrameworkStringSetLegacy (upc_LogoutURLs pc)
      \<and> Name r = StringToFramework (upc_ClientName pc)
      \<and> PreventUserExistenceErrors r = StringToFrameworkLegacy (upc_PreventUserExistenceErrors pc)
      \<and> ReadAttributes r = FlattenFrameworkStringSetLegacy (upc_ReadAttributes pc)
      \<and> RefreshTokenValidity r = Int64ToFramework (upc_RefreshTokenValidity pc)
      \<and> SupportedIdentityProviders r
          = FlattenFrameworkStringSetLegacy (upc_SupportedIdentityProviders pc)
      \<and> TokenValidityUnits r = flattenTokenValidityUnits (upc_TokenValidityUnits pc)
      \<and> UserPoolID r = StringToFramework (upc_UserPoolId pc)
      \<and> WriteAttributes r = FlattenFrameworkStringSetLegacy (upc_WriteAttributes pc)"
    by (simp add: update_Some)
  have c: "\<exists>c r. CreateUserPoolClient conn
                  (fst (createInput plan (Append (Append (Diagnostics response) cds) pds)))
                = Inr (Some c)
           \<and> update config (Some c)
                (snd (createInput plan (Append (Append (Diagnostics response) cds) pds)))
              = Return (r, Diagnostics response')
           \<and> State response' = Some r"
    if "Create conn \<lparr>creq_Config = (cds, config), creq_Plan = (pds, plan)\<rparr> response
        = Return response'" "State response' \<noteq> State response"
  proof -
    let ?r1 = "response\<lparr>Diagnostics :=
        snd (createInput plan (Append (Append (Diagnostics response) cds) pds))\<rparr>"
    from Create_cases [OF that] obtain poolClient
      where 1: "CreateUserPoolClient conn
                  (fst (createInput plan (Append (Append (Diagnostics response) cds) pds)))
                = Inr poolClient"
        and 3: "update_and_set config poolClient ?r1 = Return response'"
      by blast
    from that(2) have "State response' \<noteq> State ?r1" by simp
    from update_and_set_changes [OF 3 this] 1 show ?thesis by auto
  qed
  have r: "State response' = None
        \<or> (\<exists>c r. DescribeUserPoolClient conn
                    \<lparr>dupc_ClientId = Some (ValueString (ID state)),
                     dupc_UserPoolId = Some (ValueString (UserPoolID state))\<rparr> = Inr (Some c)
           \<and> update state (Some c) (Append (Diagnostics response) sds)
              = Return (r, Diagnostics response')
           \<and> State response' = Some r)"
    if "Read conn \<lparr>rreq_State = (sds, state)\<rparr> response = Return response'"
      "State response' \<noteq> State response"
  proof -
    let ?r1 = "response\<lparr>Diagnostics := Append (Diagnostics response) sds\<rparr>"
    from Read_cases [OF that] show ?thesis
    proof
      assume "State response' = None"
      then show ?thesis by simp
    next
      assume "\<exists>pc. DescribeUserPoolClient conn
             \<lparr>dupc_ClientId = Some (ValueString (ID state)),
              dupc_UserPoolId = Some (ValueString (UserPoolID state))\<rparr> = Inr (Some pc)
           \<and> update_and_set state (Some pc) ?r1 = Return response'"
      then obtain pc
        where 1: "DescribeUserPoolClient conn
             \<lparr>dupc_ClientId = Some (ValueString (ID state)),
              dupc_UserPoolId = Some (ValueString (UserPoolID state))\<rparr> = Inr (Some pc)"
          and 3: "update_and_set state (Some pc) ?r1 = Return response'"
        by blast
      from that(2) have "State response' \<noteq> State ?r1" by simp
      from update_and_set_changes [OF 3 this] 1 show ?thesis by auto
    qed
  qed
  have u: "\<exists>c r. snd (RetryWhenAWSErrCodeEquals (2 * time_Minute)
                      (\<lambda>k. UpdateUserPoolClient conn k
                         (fst (updateInput plan (Append (Append (Diagnostics response) cds) pds))))
                      ErrCodeConcurrentModificationException 0 0) = Inr (Some c)
           \<and> snd (UpdateUserPoolClient conn
                  (fst (RetryWhenAWSErrCodeEquals (2 * time_Minute)
                     (\<lambda>k. UpdateUserPoolClient conn k
                        (fst (updateInput plan (Append (Append (Diagnostics response) cds) pds))))
                     ErrCodeConcurrentModificationException 0 0) - 1)
                  (fst (updateInput plan (Append (Append (Diagnostics response) cds) pds))))
              = Inr (Some c)
           \<and> update config (Some c)
                (snd (updateInput plan (Append (Append (Diagnostics response) cds) pds)))
              = Return (r, Diagnostics response')
           \<and> State response' = Some r"
    if "Update conn \<lparr>ureq_Config = (cds, config), ureq_Plan = (pds, plan)\<rparr> response
        = Return response'" "State response' \<noteq> State response"
  proof -
    let ?r1 = "response\<lparr>Diagnostics :=
        snd (updateInput plan (Append (Append (Diagnostics response) cds) pds))\<rparr>"
    from Update_cases [OF that] obtain poolClient
      where 1: "snd (RetryWhenAWSErrCodeEquals (2 * time_Minute)
                  (\<lambda>k. UpdateUserPoolClient conn k
                     (fst (updateInput plan (Append (Append (Diagnostics response) cds) pds))))
                  ErrCodeConcurrentModificationException 0 0) = Inr poolClient"
        and 2: "snd (UpdateUserPoolClient conn
                  (fst (RetryWhenAWSErrCodeEquals (2 * time_Minute)
                     (\<lambda>k. UpdateUserPoolClient conn k
                        (fst (updateInput plan (Append (Append (Diagnostics response) cds) pds))))
                     ErrCodeConcurrentModificationException 0 0) - 1)
                  (fst (updateInput plan (Append (Append (Diagnostics response) cds) pds))))
             = Inr poolClient"
        and 3: "update_and_set config poolClient ?r1 = Return response'"
      by blast
    from that(2) have "State response' \<noteq> State ?r1" by simp
    from update_and_set_changes [OF 3 this] 1 2 show ?thesis by auto
  qed
  from m c r u show ?thesis by blast
qed

theorem update_copies_response_witness:
  "(\<exists>r. Create
      \<lparr>CreateUserPoolClient = \<lambda>i. Inr (Some (zero_client\<lparr>upc_ClientId := Some ''client-1''\<rparr>)),
       DescribeUserPoolClient = \<lambda>i. Inr (Some (zero_client\<lparr>upc_ClientId := Some ''client-1''\<rparr>)),
       UpdateUserPoolClient = \<lambda>k i. (0, Inr (Some (zero_client\<lparr>upc_ClientId := Some ''client-1''\<rparr>))),
       DeleteUserPoolClient = \<lambda>i. None\<rparr>
      \<lparr>creq_Config = ([], zero_data\<lparr>GenerateSecret := Known True\<rparr>),
       creq_Plan = ([], zero_data\<lparr>GenerateSecret := Known True\<rparr>)\<rparr>
      \<lparr>Diagnostics = [], State = None\<rparr>
     = Return \<lparr>Diagnostics = [], State = Some r\<rparr>
     \<and> ID r = Known ''client-1'' \<and> GenerateSecret r = Known True)
   \<and> (\<exists>r. Read
      \<lparr>CreateUserPoolClient = \<lambda>i. Inr (Some (zero_client\<lparr>upc_ClientId := Some ''client-1''\<rparr>)),
       DescribeUserPoolClient = \<lambda>i. Inr (Some (zero_client\<lparr>upc_ClientId := Some ''client-1''\<rparr>)),
       UpdateUserPoolClient = \<lambda>k i. (0, Inr (Some (zero_client\<lparr>upc_ClientId := Some ''client-1''\<rparr>))),
       DeleteUserPoolClient = \<lambda>i. None\<rparr>
      \<lparr>rreq_State = ([], zero_data\<lparr>GenerateSecret := Known True\<rparr>)\<rparr>
      \<lparr>Diagnostics = [], State = Some (zero_data\<lparr>GenerateSecret := Known True\<rparr>)\<rparr>
     = Return \<lparr>Diagnostics = [], State = Some r\<rparr>
     \<and> ID r = Known ''client-1'' \<and> GenerateSecret r = Known True)
   \<and> (\<exists>r. Update
      \<lparr>CreateUserPoolClient = \<lambda>i. Inr (Some (zero_client\<lparr>upc_ClientId := Some ''client-1''\<rparr>)),
       DescribeUserPoolClient = \<lambda>i. Inr (Some (zero_client\<lparr>upc_ClientId := Some ''client-1''\<rparr>)),
       UpdateUserPoolClient = \<lambda>k i. (0, Inr (Some (zero_client\<lparr>upc_ClientId := Some ''client-1''\<rparr>))),
       DeleteUserPoolClient = \<lambda>i. None\<rparr>
      \<lparr>ureq_Config = ([], zero_data\<lparr>GenerateSecret := Known True\<rparr>),
       ureq_Plan = ([], zero_data\<lparr>GenerateSecret := Known True\<rparr>)\<rparr>
      \<lparr>Diagnostics = [], State = Some (zero_data\<lparr>GenerateSecret := Known True\<rparr>)\<rparr>
     = Return \<lparr>Diagnostics = [], State = Some r\<rparr>
     \<and> ID r = Known ''client-1'' \<and> GenerateSecret r = Known True)"
proof -
  let ?c = "zero_client\<lparr>upc_ClientId := Some ''client-1''\<rparr>"
  let ?d = "zero_data\<lparr>GenerateSecret := Known True\<rparr>"
  let ?conn = "\<lparr>CreateUserPoolClient = \<lambda>i. Inr (Some ?c),
       DescribeUserPoolClient = \<lambda>i. Inr (Some ?c),
       UpdateUserPoolClient = \<lambda>k i. (0, Inr (Some ?c)),
       DeleteUserPoolClient = \<lambda>i. None\<rparr>"
  from update_zero_client [of ?d] obtain r
    where u: "update ?d (Some ?c) [] = Return (r, [])"
      and r: "ID r = Known ''client-1''" "GenerateSecret r = Known True"
    by (auto simp: zero_data_def)
  have cr: "Create ?conn \<lparr>creq_Config = ([], ?d), creq_Plan = ([], ?d)\<rparr>
      \<lparr>Diagnostics = [], State = None\<rparr> = Return \<lparr>Diagnostics = [], State = Some r\<rparr>"
    using u createInput_zero_data [of "Known True"]
    by (auto simp: Create_def update_and_set_def Let_def split: prod.splits)
  have rd: "Read ?conn \<lparr>rreq_State = ([], ?d)\<rparr> \<lparr>Diagnostics = [], State = Some ?d\<rparr>
      = Return \<lparr>Diagnostics = [], State = Some r\<rparr>"
    using u
    by (simp add: Read_def update_and_set_def FindCognitoUserPoolClientByID_def NotFound_def
        Let_def)
  have up: "Update ?conn \<lparr>ureq_Config = ([], ?d), ureq_Plan = ([], ?d)\<rparr>
      \<lparr>Diagnostics = [], State = Some ?d\<rparr> = Return \<lparr>Diagnostics = [], State = Some r\<rparr>"
    using u updateInput_zero_data [of "Known True"]
    by (auto simp: Update_def update_and_set_def Retry_answer Let_def split: prod.splits)
  have ne: "State \<lparr>Diagnostics = [], State = Some r\<rparr> \<noteq> State \<lparr>Diagnostics = [], State = None\<rparr>"
    "State \<lparr>Diagnostics = [], State = Some r\<rparr>
      \<noteq> State \<lparr>Diagnostics = [], State = Some ?d\<rparr>"
    using r by (auto simp: zero_data_def)
  note t = update_copies_response [where conn = ?conn and cds = "[]" and config = ?d
      and pds = "[]" and plan = ?d and sds = "[]" and state = ?d
      and response' = "\<lparr>Diagnostics = [], State = Some r\<rparr>"]
  from t [where response = "\<lparr>Diagnostics = [], State = None\<rparr>"] cr ne(1)
  have "\<exists>c r'. CreateUserPoolClient ?conn (fst (createInput ?d [])) = Inr (Some c)
           \<and> update ?d (Some c) (snd (createInput ?d [])) = Return (r', []) \<and> Some r = Some r'"
    by simp
  moreover from t [where response = "\<lparr>Diagnostics = [], State = Some ?d\<rparr>"] rd up ne(2)
  have "\<exists>c r'. DescribeUserPoolClient ?conn
                    \<lparr>dupc_ClientId = Some (ValueString (ID ?d)),
                     dupc_UserPoolId = Some (ValueString (UserPoolID ?d))\<rparr> = Inr (Some c)
           \<and> update ?d (Some c) [] = Return (r', []) \<and> Some r = Some r'"
    by simp
  ultimately show ?thesis using cr rd up r by blast
qed

theorem update_keeps_GenerateSecret:
  "update (zero_data\<lparr>GenerateSecret := Known True\<rparr>)
     (Some (zero_client\<lparr>upc_ClientId := Some ''client-1'', upc_ClientName := Some ''app''\<rparr>)) []
   = Return
       (\<lparr>AccessTokenValidity = Known 0, AllowedOauthFlows = Known [],
         AllowedOauthFlowsUserPoolClient = Null, AllowedOauthScopes = Known [],
         AnalyticsConfiguration = Null, AuthSessionValidity = Null, CallbackUrls = Known [],
         ClientSecret = Known [], DefaultRedirectUri = Known [],
         EnablePropagateAdditionalUserContextData = Null, EnableTokenRevocation = Null,
         ExplicitAuthFlows = Known [], GenerateSecret = Known True, ID = Known ''client-1'',
         IdTokenValidity = Known 0, LogoutUrls = Known [], Name = Known ''app'',
         PreventUserExistenceErrors = Known [], ReadAttributes = Known [],
         RefreshTokenValidity = Null, SupportedIdentityProviders = Known [],
         TokenValidityUnits = Null, UserPoolID = Null, WriteAttributes = Known []\<rparr>, [])
   \<and> update (zero_data\<lparr>GenerateSecret := Known False\<rparr>)
     (Some (zero_client\<lparr>upc_ClientId := Some ''client-1'', upc_ClientName := Some ''app''\<rparr>)) []
   = Return
       (\<lparr>AccessTokenValidity = Known 0, AllowedOauthFlows = Known [],
         AllowedOauthFlowsUserPoolClient = Null, AllowedOauthScopes = Known [],
         AnalyticsConfiguration = Null, AuthSessionValidity = Null, CallbackUrls = Known [],
         ClientSecret = Known [], DefaultRedirectUri = Known [],
         EnablePropagateAdditionalUserContextData = Null, EnableTokenRevocation = Null,
         ExplicitAuthFlows = Known [], GenerateSecret = Known False, ID = Known ''client-1'',
         IdTokenValidity = Known 0, LogoutUrls = Known [], Name = Known ''app'',
         PreventUserExistenceErrors = Known [], ReadAttributes = Known [],
         RefreshTokenValidity = Null, SupportedIdentityProviders = Known [],
         TokenValidityUnits = Null, UserPoolID = Null, WriteAttributes = Known []\<rparr>, [])"
  by (simp add: update_def zero_data_def zero_client_def flattenAnaylticsConfiguration_def
      flattenTokenValidityUnits_def Int64ToFrameworkLegacy_def Int64ToFramework_def
      FlattenFrameworkStringSetLegacy_def BoolToFramework_def StringToFramework_def
      StringToFrameworkLegacy_def)

subsection \<open>Update under concurrent modification\<close>

text \<open>
  C4. Update calls the remote update through \<open>RetryWhenAWSErrCodeEquals\<close> with a timeout of
  two minutes and the code \<open>ConcurrentModificationException\<close>. Let the helper make \<open>n\<close>
  calls and return \<open>r\<close>. Then \<open>r\<close> is the answer to the last call; every call before
  the last failed with that code, and was followed by another call only while the time
  spent was below two minutes; if the last call failed with that code too, two minutes
  were used up. If \<open>r\<close> is an answer without error, Update goes on with the client in
  it and, when \<open>update\<close> leaves no error, stores the updated config as the state. If
  \<open>r\<close> is an error (any other error, or the conflict that outlasted the timeout), Update
  adds it as an error diagnostic and leaves the state as it is.
\<close>

theorem Update_retries_on_concurrent_modification:
  assumes "\<not> HasError (Append (Append (Diagnostics response) cds) pds)"
    and "updateInput plan (Append (Append (Diagnostics response) cds) pds) = (params, diags)"
    and "\<not> HasError diags"
    and "RetryWhenAWSErrCodeEquals (2 * time_Minute) (\<lambda>k. UpdateUserPoolClient conn k params)
           ErrCodeConcurrentModificationException 0 0 = (n, r)"
  shows "2 * time_Minute = 120000
    \<and> 0 < n \<and> r = snd (UpdateUserPoolClient conn (n - 1) params)
    \<and> (\<forall>j. j < n - 1 \<longrightarrow>
          (\<exists>e. snd (UpdateUserPoolClient conn j params) = Inl e
               \<and> error_code_is e ErrCodeConcurrentModificationException)
          \<and> (\<Sum>i = 0..j. max 1 (fst (UpdateUserPoolClient conn i params))) < 2 * time_Minute)
    \<and> (\<forall>e. r = Inl e \<and> error_code_is e ErrCodeConcurrentModificationException \<longrightarrow>
          2 * time_Minute \<le> (\<Sum>i = 0..<n. max 1 (fst (UpdateUserPoolClient conn i params))))
    \<and> (\<forall>c. r = Inr c \<longrightarrow>
          Update conn \<lparr>ureq_Config = (cds, config), ureq_Plan = (pds, plan)\<rparr> response
          = update_and_set config c (response\<lparr>Diagnostics := diags\<rparr>))
    \<and> (\<forall>c data' ds. r = Inr (Some c) \<and> update config (Some c) diags = Return (data', ds)
            \<and> \<not> HasError ds \<longrightarrow>
          Update conn \<lparr>ureq_Config = (cds, config), ureq_Plan = (pds, plan)\<rparr> response
          = Return (response\<lparr>Diagnostics := ds, State := Some data'\<rparr>))
    \<and> (\<forall>e. r = Inl e \<longrightarrow>
          Update conn \<lparr>ureq_Config = (cds, config), ureq_Plan = (pds, plan)\<rparr> response
          = Return (response\<lparr>Diagnostics :=
              AddError diags
                (''updating Cognito User Pool Client ('' @ ValueString (ID plan) @ '')'')
                (ErrorText e)\<rparr>))"
proof -
  from assms(1) have c: "\<not> HasError (Append (Diagnostics response) cds)"
    by (simp add: HasError_Append)
  have upd: "Update conn \<lparr>ureq_Config = (cds, config), ureq_Plan = (pds, plan)\<rparr> response
     = (case r of
          Inl err \<Rightarrow>
            Return (response\<lparr>Diagnostics :=
              AddError diags
                (''updating Cognito User Pool Client ('' @ ValueString (ID plan) @ '')'')
                (ErrorText err)\<rparr>)
        | Inr poolClient \<Rightarrow> update_and_set config poolClient (response\<lparr>Diagnostics := diags\<rparr>))"
    using c assms by (simp add: Update_def Let_def split: sum.splits)
  have set: "Update conn \<lparr>ureq_Config = (cds, config), ureq_Plan = (pds, plan)\<rparr> response
          = Return (response\<lparr>Diagnostics := ds, State := Some data'\<rparr>)"
    if "r = Inr (Some c)" "update config (Some c) diags = Return (data', ds)" "\<not> HasError ds"
    for c data' ds
    using that upd by (simp add: update_and_set_def)
  from Retry_spec [OF assms(4)] upd set show ?thesis
    by (simp add: time_Minute_def)
qed

theorem Update_retries_on_concurrent_modification_witness:
  "RetryWhenAWSErrCodeEquals (2 * time_Minute)
     (\<lambda>k. if k < 2 then (30000, Inl (AWSError ''ConcurrentModificationException'' ''busy''))
          else (200, Inr (Some (zero_client\<lparr>upc_ClientId := Some ''client-1''\<rparr>))))
     ErrCodeConcurrentModificationException 0 0
   = (3, Inr (Some (zero_client\<lparr>upc_ClientId := Some ''client-1''\<rparr>)))
   \<and> (\<exists>r. Update
      \<lparr>CreateUserPoolClient = \<lambda>i. Inl (OtherError ''not called''),
       DescribeUserPoolClient = \<lambda>i. Inl (OtherError ''not called''),
       UpdateUserPoolClient = \<lambda>k i.
         if k < 2 then (30000, Inl (AWSError ''ConcurrentModificationException'' ''busy''))
         else (200, Inr (Some (zero_client\<lparr>upc_ClientId := Some ''client-1''\<rparr>))),
       DeleteUserPoolClient = \<lambda>i. None\<rparr>
      \<lparr>ureq_Config = ([], zero_data), ureq_Plan = ([], zero_data)\<rparr>
      \<lparr>Diagnostics = [], State = Some zero_data\<rparr>
     = Return \<lparr>Diagnostics = [], State = Some r\<rparr> \<and> ID r = Known ''client-1'')
   \<and> RetryWhenAWSErrCodeEquals (2 * time_Minute)
     (\<lambda>k. (50000, Inl (AWSError ''ConcurrentModificationException'' ''busy'') :: error + UserPoolClientType option))
     ErrCodeConcurrentModificationException 0 0
   = (3, Inl (AWSError ''ConcurrentModificationException'' ''busy''))
   \<and> Update
      \<lparr>CreateUserPoolClient = \<lambda>i. Inl (OtherError ''not called''),
       DescribeUserPoolClient = \<lambda>i. Inl (OtherError ''not called''),
       UpdateUserPoolClient = \<lambda>k i.
         (50000, Inl (AWSError ''ConcurrentModificationException'' ''busy'')),
       DeleteUserPoolClient = \<lambda>i. None\<rparr>
      \<lparr>ureq_Config = ([], zero_data), ureq_Plan = ([], zero_data)\<rparr>
      \<lparr>Diagnostics = [], State = Some zero_data\<rparr>
     = Return \<lparr>Diagnostics =
         [ErrorDiagnostic ''updating Cognito User Pool Client ()''
            (ErrorText (AWSError ''ConcurrentModificationException'' ''busy''))],
         State = Some zero_data\<rparr>"
proof -
  let ?c = "zero_client\<lparr>upc_ClientId := Some ''client-1''\<rparr>"
  let ?busy = "AWSError ''ConcurrentModificationException'' ''busy''"
  let ?f = "\<lambda>k::nat. if k < 2 then (30000::nat, Inl ?busy) else (200, Inr (Some ?c))"
  let ?g = "\<lambda>k::nat. (50000::nat, Inl ?busy :: error + UserPoolClientType option)"
  let ?conn = "\<lambda>f. \<lparr>CreateUserPoolClient = \<lambda>i. Inl (OtherError ''not called''),
       DescribeUserPoolClient = \<lambda>i. Inl (OtherError ''not called''),
       UpdateUserPoolClient = \<lambda>k i. f k,
       DeleteUserPoolClient = \<lambda>i. None\<rparr>"
  let ?T = "2 * time_Minute"
  let ?code = ErrCodeConcurrentModificationException
  have busy: "error_code_is ?busy ?code"
    by (simp add: ErrCodeConcurrentModificationException_def)
  have "RetryWhenAWSErrCodeEquals ?T ?f ?code 0 0 = RetryWhenAWSErrCodeEquals ?T ?f ?code (Suc 0) 30000"
    using Retry_again [where f = ?f and k = 0 and e = ?busy and code = ?code and elapsed = 0
        and timeout = ?T] busy
    by (simp add: time_Minute_def)
  also have "\<dots> = RetryWhenAWSErrCodeEquals ?T ?f ?code (Suc (Suc 0)) 60000"
    using Retry_again [where f = ?f and k = "Suc 0" and e = ?busy and code = ?code
        and elapsed = 30000 and timeout = ?T] busy
    by (simp add: time_Minute_def)
  also have "\<dots> = (3, Inr (Some ?c))"
    using Retry_answer [where f = ?f and k = "Suc (Suc 0)" and out = "Some ?c" and code = ?code
        and elapsed = 60000 and timeout = ?T]
    by (simp add: numeral_3_eq_3)
  finally have rf: "RetryWhenAWSErrCodeEquals ?T ?f ?code 0 0 = (3, Inr (Some ?c))" .
  have "RetryWhenAWSErrCodeEquals ?T ?g ?code 0 0 = RetryWhenAWSErrCodeEquals ?T ?g ?code (Suc 0) 50000"
    using Retry_again [where f = ?g and k = 0 and e = ?busy and code = ?code and elapsed = 0
        and timeout = ?T] busy
    by (simp add: time_Minute_def)
  also have "\<dots> = RetryWhenAWSErrCodeEquals ?T ?g ?code (Suc (Suc 0)) 100000"
    using Retry_again [where f = ?g and k = "Suc 0" and e = ?busy and code = ?code
        and elapsed = 50000 and timeout = ?T] busy
    by (simp add: time_Minute_def)
  also have "\<dots> = (3, Inl ?busy)"
    using Retry_give_up [where f = ?g and k = "Suc (Suc 0)" and e = ?busy and code = ?code
        and elapsed = 100000 and timeout = ?T]
    by (simp add: time_Minute_def numeral_3_eq_3)
  finally have rg: "RetryWhenAWSErrCodeEquals ?T ?g ?code 0 0 = (3, Inl ?busy)" .
  have h1: "\<not> HasError (Append (Append (Diagnostics \<lparr>Diagnostics = [], State = Some zero_data\<rparr>) []) [])"
    by simp
  have h2: "updateInput zero_data
      (Append (Append (Diagnostics \<lparr>Diagnostics = [], State = Some zero_data\<rparr>) []) [])
      = (fst (updateInput zero_data []), [])"
    using updateInput_zero_data [of Null]
    by (simp add: zero_data_def prod_eq_iff)
  have h3: "\<not> HasError []" by simp
  from update_zero_client [of zero_data] obtain r
    where u: "update zero_data (Some ?c) [] = Return (r, [])" and r: "ID r = Known ''client-1''"
    by auto
  note f = Update_retries_on_concurrent_modification [OF h1 h2 h3,
      where conn = "?conn ?f" and n = 3 and r = "Inr (Some ?c)" and config = zero_data]
  note g = Update_retries_on_concurrent_modification [OF h1 h2 h3,
      where conn = "?conn ?g" and n = 3 and r = "Inl ?busy" and config = zero_data]
  from f rf u have "Update (?conn ?f) \<lparr>ureq_Config = ([], zero_data), ureq_Plan = ([], zero_data)\<rparr>
      \<lparr>Diagnostics = [], State = Some zero_data\<rparr> = Return \<lparr>Diagnostics = [], State = Some r\<rparr>"
    by auto
  moreover from g rg have "Update (?conn ?g) \<lparr>ureq_Config = ([], zero_data), ureq_Plan = ([], zero_data)\<rparr>
      \<lparr>Diagnostics = [], State = Some zero_data\<rparr>
     = Return \<lparr>Diagnostics =
         [ErrorDiagnostic ''updating Cognito User Pool Client ()'' (ErrorText ?busy)],
         State = Some zero_data\<rparr>"
    by (auto simp: AddError_def ValueString_def zero_data_def)
  ultimately show ?thesis using rf rg r by auto
qed

end
